theory Spec2Isabelle
  imports Complex_Main
begin

section \<open>JavaScript values\<close>

text \<open>
  The handler of \<^verbatim>\<open>src/index.ts\<close> receives its arguments as parsed JSON (\<^verbatim>\<open>args as any\<close>)
  and reads HTTP response bodies the same way. A value is therefore a JSON value or
  \<^verbatim>\<open>undefined\<close>, the result of reading a property that is absent. An object is an
  association list in property order; a property read takes the first entry of a key.
  Strings are sequences of code units below 256. Numbers are rationals: JSON has neither
  NaN nor an infinity, and the code only tests a number for zero, passes it on or
  prints it.
\<close>

datatype jsval =
    JUndefined
  | JNull
  | JBool bool
  | JNum rat
  | JStr string
  | JArr "jsval list"
  | JObj "(string \<times> jsval) list"

text \<open>ToBoolean: what \<^verbatim>\<open>if (v)\<close>, \<^verbatim>\<open>v || d\<close> and \<^verbatim>\<open>v && w\<close> test.\<close>

fun truthy :: "jsval \<Rightarrow> bool" where
  "truthy JUndefined = False"
| "truthy JNull = False"
| "truthy (JBool b) = b"
| "truthy (JNum n) = (n \<noteq> 0)"
| "truthy (JStr s) = (s \<noteq> [])"
| "truthy (JArr xs) = True"
| "truthy (JObj fs) = True"

text \<open>\<^verbatim>\<open>a || b\<close>\<close>

definition js_or :: "jsval \<Rightarrow> jsval \<Rightarrow> jsval" where
  "js_or a b = (if truthy a then a else b)"

text \<open>\<^verbatim>\<open>undefined\<close> and \<^verbatim>\<open>null\<close>: the values a property read throws on.\<close>

fun nullish :: "jsval \<Rightarrow> bool" where
  "nullish JUndefined = True"
| "nullish JNull = True"
| "nullish v = False"

text \<open>A destructuring default \<^verbatim>\<open>{ limit = 50 }\<close> applies to \<^verbatim>\<open>undefined\<close> only.\<close>

definition default_to :: "jsval \<Rightarrow> jsval \<Rightarrow> jsval" where
  "default_to v d = (if v = JUndefined then d else v)"

definition lookup :: "(string \<times> jsval) list \<Rightarrow> string \<Rightarrow> jsval" where
  "lookup fs k = (case map_of fs k of None \<Rightarrow> JUndefined | Some v \<Rightarrow> v)"

text \<open>
  \<^verbatim>\<open>v.k\<close> for a value that is neither \<^verbatim>\<open>undefined\<close> nor \<^verbatim>\<open>null\<close>, for the property names
  the handler reads (\<^verbatim>\<open>objects\<close>, \<^verbatim>\<open>id\<close>, \<^verbatim>\<open>length\<close> and the fields of a position): of
  these, arrays and strings have \<^verbatim>\<open>length\<close>, numbers and booleans have none.
\<close>

fun read_prop :: "jsval \<Rightarrow> string \<Rightarrow> jsval" where
  "read_prop (JObj fs) k = lookup fs k"
| "read_prop (JArr xs) k = (if k = ''length'' then JNum (of_nat (length xs)) else JUndefined)"
| "read_prop (JStr s) k = (if k = ''length'' then JNum (of_nat (length s)) else JUndefined)"
| "read_prop v k = JUndefined"

text \<open>\<^verbatim>\<open>v?.k\<close>\<close>

definition opt_prop :: "jsval \<Rightarrow> string \<Rightarrow> jsval" where
  "opt_prop v k = (if nullish v then JUndefined else read_prop v k)"

subsection \<open>Exceptions\<close>

datatype ErrorCode = MethodNotFound

datatype type_fault =
    DestructureNullish
  | ReadOfNullish jsval string
  | NotIterable jsval

text \<open>
  What the code throws: an \<^verbatim>\<open>Error\<close> with a message (built by \<^verbatim>\<open>request\<close>, or thrown by
  the HTTP client and passed on), a \<^verbatim>\<open>TypeError\<close> of the engine, an \<^verbatim>\<open>McpError\<close>.
\<close>

datatype exn =
    Error string
  | TypeError type_fault
  | McpError ErrorCode string

subsection \<open>The runtime\<close>

text \<open>
  What the engine and the libraries supply: the clock behind
  \<^verbatim>\<open>new Date().toISOString()\<close>, Number::toString, whether ToNumber of a string is
  greater than zero, \<^verbatim>\<open>JSON.stringify(v)\<close> and \<^verbatim>\<open>JSON.stringify(v, null, 2)\<close> of a value
  other than \<^verbatim>\<open>undefined\<close>, the message of an engine TypeError and the message the
  SDK's \<^verbatim>\<open>McpError\<close> constructor builds from a code and a text.
\<close>

record js_runtime =
  date_now_iso :: string
  number_to_string :: "rat \<Rightarrow> string"
  string_gt_zero :: "string \<Rightarrow> bool"
  json_text :: "jsval \<Rightarrow> string"
  json_text_indent2 :: "jsval \<Rightarrow> string"
  type_error_message :: "type_fault \<Rightarrow> string"
  mcp_error_message :: "ErrorCode \<Rightarrow> string \<Rightarrow> string"

fun join_with :: "string \<Rightarrow> string list \<Rightarrow> string" where
  "join_with sep [] = []"
| "join_with sep [x] = x"
| "join_with sep (x # y # ys) = x @ sep @ join_with sep (y # ys)"

text \<open>ToString, as a template literal \<^verbatim>\<open>`${v}`\<close> applies it.\<close>

fun js_to_string :: "js_runtime \<Rightarrow> jsval \<Rightarrow> string" where
  "js_to_string rt JUndefined = ''undefined''"
| "js_to_string rt JNull = ''null''"
| "js_to_string rt (JBool b) = (if b then ''true'' else ''false'')"
| "js_to_string rt (JNum n) = number_to_string rt n"
| "js_to_string rt (JStr s) = s"
| "js_to_string rt (JArr xs) =
     join_with '','' (map (\<lambda>x. if nullish x then [] else js_to_string rt x) xs)"
| "js_to_string rt (JObj fs) = ''[object Object]''"

text \<open>\<^verbatim>\<open>v > 0\<close>: ToNumber of \<^verbatim>\<open>v\<close>, NaN for \<^verbatim>\<open>undefined\<close>, compared with zero.\<close>

fun gt_zero :: "js_runtime \<Rightarrow> jsval \<Rightarrow> bool" where
  "gt_zero rt JUndefined = False"
| "gt_zero rt JNull = False"
| "gt_zero rt (JBool b) = b"
| "gt_zero rt (JNum n) = (0 < n)"
| "gt_zero rt (JStr s) = string_gt_zero rt s"
| "gt_zero rt v = string_gt_zero rt (js_to_string rt v)"

text \<open>\<^verbatim>\<open>JSON.stringify(v)\<close> is \<^verbatim>\<open>undefined\<close> for \<^verbatim>\<open>undefined\<close>, a string otherwise.\<close>

definition JSON_stringify :: "js_runtime \<Rightarrow> jsval \<Rightarrow> jsval" where
  "JSON_stringify rt v = (if v = JUndefined then JUndefined else JStr (json_text rt v))"

definition JSON_stringify_indent2 :: "js_runtime \<Rightarrow> jsval \<Rightarrow> jsval" where
  "JSON_stringify_indent2 rt v =
     (if v = JUndefined then JUndefined else JStr (json_text_indent2 rt v))"

fun exn_message :: "js_runtime \<Rightarrow> exn \<Rightarrow> string" where
  "exn_message rt (Error m) = m"
| "exn_message rt (TypeError f) = type_error_message rt f"
| "exn_message rt (McpError c m) = mcp_error_message rt c m"

section \<open>The HTTP client\<close>

record http_request =
  http_method :: jsval
  url :: jsval
  data :: jsval
  params :: jsval

text \<open>
  What comes back for a request: a response with a status and a body, no response at
  all (a connection failure), or a fault of the client that is not an \<^verbatim>\<open>AxiosError\<close>.
\<close>

datatype http_reply =
    Reply nat jsval
  | NoReply
  | Fault exn

text \<open>
  The backend answers a request knowing the requests issued before it: a server with
  state, started afresh for each invocation of the handler.
\<close>

type_synonym trace = "http_request list"
type_synonym backend = "trace \<Rightarrow> http_request \<Rightarrow> http_reply"

datatype axios_outcome =
    Fulfilled jsval
  | AxiosError "(nat \<times> jsval) option"
  | OtherError exn

text \<open>
  \<^verbatim>\<open>axios.create\<close> is called without \<^verbatim>\<open>validateStatus\<close>, so the default holds: a
  status from 200 to 299 fulfils the promise with the response, any other rejects it
  with an \<^verbatim>\<open>AxiosError\<close> that carries the response.
\<close>

fun axios_request :: "http_reply \<Rightarrow> axios_outcome" where
  "axios_request (Reply st body) =
     (if 200 \<le> st \<and> st < 300 then Fulfilled body else AxiosError (Some (st, body)))"
| "axios_request NoReply = AxiosError None"
| "axios_request (Fault e) = OtherError e"

text \<open>\<^verbatim>\<open>error.response?.status\<close> and \<^verbatim>\<open>error.response?.data\<close>\<close>

fun response_status :: "(nat \<times> jsval) option \<Rightarrow> jsval" where
  "response_status None = JUndefined"
| "response_status (Some (st, body)) = JNum (of_nat st)"

fun response_data :: "(nat \<times> jsval) option \<Rightarrow> jsval" where
  "response_data None = JUndefined"
| "response_data (Some (st, body)) = body"

definition api_error_message :: "js_runtime \<Rightarrow> (nat \<times> jsval) option \<Rightarrow> string" where
  "api_error_message rt resp =
     ''SevDesk API Error: '' @ js_to_string rt (response_status resp) @ '' - '' @
     js_to_string rt (JSON_stringify rt (response_data resp))"

text \<open>
  \<^verbatim>\<open>SevDeskClient.request\<close>: one HTTP call, appended to the trace of the requests
  issued; the response body, or the exception thrown.
\<close>

definition request ::
  "js_runtime \<Rightarrow> backend \<Rightarrow> jsval \<Rightarrow> jsval \<Rightarrow> jsval \<Rightarrow> jsval \<Rightarrow> trace \<Rightarrow> (exn + jsval) \<times> trace"
where
  "request rt be m u d p tr =
     (let req = \<lparr>http_method = m, url = u, data = d, params = p\<rparr> in
      (case axios_request (be tr req) of
         Fulfilled body \<Rightarrow> Inr body
       | AxiosError resp \<Rightarrow> Inl (Error (api_error_message rt resp))
       | OtherError e \<Rightarrow> Inl e,
       tr @ [req]))"

section \<open>Positions\<close>

datatype parentType = Invoice | Order

fun type_tag :: "parentType \<Rightarrow> string" where
  "type_tag Invoice = ''Invoice''"
| "type_tag Order = ''Order''"

fun endpoint :: "parentType \<Rightarrow> string" where
  "endpoint Invoice = ''/InvoicePos''"
| "endpoint Order = ''/OrderPos''"

fun parentKey :: "parentType \<Rightarrow> string" where
  "parentKey Invoice = ''invoice''"
| "parentKey Order = ''order''"

text \<open>
  The payload of one position. Reading \<^verbatim>\<open>pos.quantity\<close> of an element that is
  \<^verbatim>\<open>null\<close> throws before anything is sent.
\<close>

definition position_payload :: "jsval \<Rightarrow> parentType \<Rightarrow> jsval \<Rightarrow> exn + jsval" where
  "position_payload parentId pt pos =
     (if nullish pos then Inl (TypeError (ReadOfNullish pos ''quantity''))
      else Inr (JObj (
        [(parentKey pt, JObj [(''id'', parentId), (''objectName'', JStr (type_tag pt))]),
         (''quantity'', js_or (read_prop pos ''quantity'') (JNum 1)),
         (''price'', read_prop pos ''price''),
         (''name'', read_prop pos ''name''),
         (''unity'', JObj [(''id'', js_or (read_prop pos ''unityId'') (JStr ''1'')),
                          (''objectName'', JStr ''Unity'')]),
         (''taxRate'', js_or (read_prop pos ''taxRate'') (JNum 0)),
         (''mapAll'', JBool True)]
        @ (if truthy (read_prop pos ''text'') then [(''text'', read_prop pos ''text'')] else []))))"

text \<open>What \<^verbatim>\<open>for (const pos of positions)\<close> runs over.\<close>

fun iterate :: "jsval \<Rightarrow> exn + jsval list" where
  "iterate (JArr xs) = Inr xs"
| "iterate (JStr s) = Inr (map (\<lambda>c. JStr [c]) s)"
| "iterate v = Inl (TypeError (NotIterable v))"

text \<open>The body of the loop, with \<^verbatim>\<open>results\<close> as it stands.\<close>

fun createPositions_loop ::
  "js_runtime \<Rightarrow> backend \<Rightarrow> jsval \<Rightarrow> parentType \<Rightarrow> jsval list \<Rightarrow> jsval list \<Rightarrow> trace
   \<Rightarrow> (exn + jsval list) \<times> trace"
where
  "createPositions_loop rt be parentId pt [] results tr = (Inr results, tr)"
| "createPositions_loop rt be parentId pt (pos # rest) results tr =
     (case position_payload parentId pt pos of
        Inl e \<Rightarrow> (Inl e, tr)
      | Inr payload \<Rightarrow>
          (case request rt be (JStr ''POST'') (JStr (endpoint pt)) payload JUndefined tr of
             (Inl e, tr') \<Rightarrow> (Inl e, tr')
           | (Inr r, tr') \<Rightarrow> createPositions_loop rt be parentId pt rest (results @ [r]) tr'))"

definition createPositions ::
  "js_runtime \<Rightarrow> backend \<Rightarrow> jsval \<Rightarrow> parentType \<Rightarrow> jsval \<Rightarrow> trace \<Rightarrow> (exn + jsval list) \<times> trace"
where
  "createPositions rt be parentId pt positions tr =
     (case iterate positions of
        Inl e \<Rightarrow> (Inl e, tr)
      | Inr items \<Rightarrow> createPositions_loop rt be parentId pt items [] tr)"

section \<open>The tools\<close>

text \<open>
  The result of an invocation: the \<^verbatim>\<open>text\<close> of its one content item (\<open>content_text\<close>) and the
  \<^verbatim>\<open>isError\<close> flag, \<^verbatim>\<open>False\<close> where the code leaves it out.
\<close>

record tool_result =
  content_text :: jsval
  isError :: bool

text \<open>
  The \<^verbatim>\<open>arguments\<close> of an invocation: the properties of the arguments object, or
  \<open>None\<close> when the invocation carries none (\<^verbatim>\<open>args\<close> is \<^verbatim>\<open>undefined\<close>).
\<close>

type_synonym arguments = "(string \<times> jsval) list option"

text \<open>\<^verbatim>\<open>{ content: [{ type: "text", text: JSON.stringify(v, null, 2) }] }\<close>\<close>

definition text_result :: "js_runtime \<Rightarrow> jsval \<Rightarrow> tool_result" where
  "text_result rt v = \<lparr>content_text = JSON_stringify_indent2 rt v, isError = False\<rparr>"

text \<open>The tail of the cases that make one request: await it, return its body as text.\<close>

fun respond :: "js_runtime \<Rightarrow> (exn + jsval) \<times> trace \<Rightarrow> (exn + tool_result) \<times> trace" where
  "respond rt (Inl e, tr) = (Inl e, tr)"
| "respond rt (Inr response, tr) = (Inr (text_result rt response), tr)"

text \<open>\<^verbatim>\<open>const { k, ...fields } = args\<close>: the properties other than \<^verbatim>\<open>k\<close>.\<close>

definition rest_without :: "string \<Rightarrow> (string \<times> jsval) list \<Rightarrow> (string \<times> jsval) list" where
  "rest_without k a = filter (\<lambda>kv. fst kv \<noteq> k) a"

text \<open>
  Each case destructures \<^verbatim>\<open>args\<close> first, which throws a TypeError when the invocation
  carries no arguments.
\<close>

definition tool_request ::
  "js_runtime \<Rightarrow> backend \<Rightarrow> arguments \<Rightarrow> trace \<Rightarrow> (exn + tool_result) \<times> trace"
where
  "tool_request rt be args tr =
     (case args of
        None \<Rightarrow> (Inl (TypeError DestructureNullish), tr)
      | Some a \<Rightarrow>
          respond rt (request rt be (lookup a ''method'') (lookup a ''url'')
                        (lookup a ''data'') (lookup a ''params'') tr))"

definition list_contacts ::
  "js_runtime \<Rightarrow> backend \<Rightarrow> arguments \<Rightarrow> trace \<Rightarrow> (exn + tool_result) \<times> trace"
where
  "list_contacts rt be args tr =
     (case args of
        None \<Rightarrow> (Inl (TypeError DestructureNullish), tr)
      | Some a \<Rightarrow>
          (let limit = default_to (lookup a ''limit'') (JNum 50);
               offset = default_to (lookup a ''offset'') (JNum 0);
               depth = lookup a ''depth'';
               customerNumber = lookup a ''customerNumber'';
               params = JObj (
                 [(''limit'', limit), (''offset'', offset), (''countAll'', JBool True)]
                 @ (if truthy depth then [(''embed'', JStr ''category,parent'')] else [])
                 @ (if truthy customerNumber then [(''customerNumber'', customerNumber)]
                    else []))
           in respond rt (request rt be (JStr ''GET'') (JStr ''/Contact'') JUndefined params tr)))"

definition create_contact ::
  "js_runtime \<Rightarrow> backend \<Rightarrow> arguments \<Rightarrow> trace \<Rightarrow> (exn + tool_result) \<times> trace"
where
  "create_contact rt be args tr =
     (case args of
        None \<Rightarrow> (Inl (TypeError DestructureNullish), tr)
      | Some a \<Rightarrow>
          (let name = lookup a ''name'';
               status = lookup a ''status'';
               customerNumber = lookup a ''customerNumber'';
               surename = lookup a ''surename'';
               familyname = lookup a ''familyname'';
               categoryId = lookup a ''categoryId'';
               payload = JObj (
                 [(''objectName'', JStr ''Contact''),
                  (''status'', js_or status (JStr ''1000'')),
                  (''category'', JObj [(''id'', categoryId), (''objectName'', JStr ''Category'')])]
                 @ (if truthy name then [(''name'', name)] else [])
                 @ (if truthy surename then [(''surename'', surename)] else [])
                 @ (if truthy familyname then [(''familyname'', familyname)] else [])
                 @ (if truthy customerNumber then [(''customerNumber'', customerNumber)]
                    else []))
           in respond rt (request rt be (JStr ''POST'') (JStr ''/Contact'') payload JUndefined tr)))"

definition update_contact ::
  "js_runtime \<Rightarrow> backend \<Rightarrow> arguments \<Rightarrow> trace \<Rightarrow> (exn + tool_result) \<times> trace"
where
  "update_contact rt be args tr =
     (case args of
        None \<Rightarrow> (Inl (TypeError DestructureNullish), tr)
      | Some a \<Rightarrow>
          (let contactId = lookup a ''contactId'';
               fields = rest_without ''contactId'' a;
               payload = JObj fields
           in respond rt (request rt be (JStr ''PUT'')
                            (JStr (''/Contact/'' @ js_to_string rt contactId)) payload
                            JUndefined tr)))"

definition list_invoices ::
  "js_runtime \<Rightarrow> backend \<Rightarrow> arguments \<Rightarrow> trace \<Rightarrow> (exn + tool_result) \<times> trace"
where
  "list_invoices rt be args tr =
     (case args of
        None \<Rightarrow> (Inl (TypeError DestructureNullish), tr)
      | Some a \<Rightarrow>
          (let limit = default_to (lookup a ''limit'') (JNum 50);
               offset = default_to (lookup a ''offset'') (JNum 0);
               status = lookup a ''status'';
               contactId = lookup a ''contactId'';
               params = JObj (
                 [(''limit'', limit), (''offset'', offset), (''countAll'', JBool True)]
                 @ (if truthy status then [(''status'', status)] else [])
                 @ (if truthy contactId then [(''contact[id]'', contactId)] else []))
           in respond rt (request rt be (JStr ''GET'') (JStr ''/Invoice'') JUndefined params tr)))"

definition get_invoice_positions ::
  "js_runtime \<Rightarrow> backend \<Rightarrow> arguments \<Rightarrow> trace \<Rightarrow> (exn + tool_result) \<times> trace"
where
  "get_invoice_positions rt be args tr =
     (case args of
        None \<Rightarrow> (Inl (TypeError DestructureNullish), tr)
      | Some a \<Rightarrow>
          (let invoiceId = lookup a ''invoiceId'';
               limit = default_to (lookup a ''limit'') (JNum 50);
               offset = default_to (lookup a ''offset'') (JNum 0);
               params = JObj [(''limit'', limit), (''offset'', offset),
                              (''invoice[id]'', invoiceId),
                              (''invoice[objectName]'', JStr ''Invoice'')]
           in respond rt (request rt be (JStr ''GET'') (JStr ''/InvoicePos'') JUndefined params tr)))"

text \<open>
  \<^verbatim>\<open>response.objects?.id || response.id\<close>: reading \<^verbatim>\<open>objects\<close> of a body that is
  \<^verbatim>\<open>null\<close> throws.
\<close>

definition created_id :: "jsval \<Rightarrow> exn + jsval" where
  "created_id response =
     (if nullish response then Inl (TypeError (ReadOfNullish response ''objects''))
      else Inr (js_or (opt_prop (read_prop response ''objects'') ''id'')
                      (read_prop response ''id'')))"

text \<open>\<^verbatim>\<open>positions && positions.length > 0\<close>\<close>

definition has_positions :: "js_runtime \<Rightarrow> jsval \<Rightarrow> bool" where
  "has_positions rt positions =
     (truthy positions \<and> gt_zero rt (read_prop positions ''length''))"

definition invoice_payload :: "js_runtime \<Rightarrow> (string \<times> jsval) list \<Rightarrow> jsval" where
  "invoice_payload rt a =
     (let contactId = lookup a ''contactId'';
          invoiceDate = lookup a ''invoiceDate'';
          header = lookup a ''header'';
          status = lookup a ''status'';
          deliveryDate = lookup a ''deliveryDate'';
          taxType = lookup a ''taxType'';
          currency = lookup a ''currency''
      in JObj (
        [(''contact'', JObj [(''id'', contactId), (''objectName'', JStr ''Contact'')]),
         (''invoiceType'', JStr ''RE''),
         (''status'', js_or status (JStr ''100'')),
         (''invoiceDate'', js_or invoiceDate (JStr (date_now_iso rt))),
         (''header'', js_or header (JStr ''Invoice'')),
         (''currency'', js_or currency (JStr ''EUR'')),
         (''taxType'', js_or taxType (JStr ''default'')),
         (''mapAll'', JBool True)]
        @ (if truthy deliveryDate then [(''deliveryDate'', deliveryDate)] else [])))"

definition create_invoice ::
  "js_runtime \<Rightarrow> backend \<Rightarrow> arguments \<Rightarrow> trace \<Rightarrow> (exn + tool_result) \<times> trace"
where
  "create_invoice rt be args tr =
     (case args of
        None \<Rightarrow> (Inl (TypeError DestructureNullish), tr)
      | Some a \<Rightarrow>
          (let positions = lookup a ''positions'' in
           case request rt be (JStr ''POST'') (JStr ''/Invoice'') (invoice_payload rt a)
                  JUndefined tr of
             (Inl e, tr1) \<Rightarrow> (Inl e, tr1)
           | (Inr invoiceResponse, tr1) \<Rightarrow>
               (case created_id invoiceResponse of
                  Inl e \<Rightarrow> (Inl e, tr1)
                | Inr invoiceId \<Rightarrow>
                    if has_positions rt positions \<and> truthy invoiceId
                    then (case createPositions rt be invoiceId Invoice positions tr1 of
                            (Inl e, tr2) \<Rightarrow> (Inl e, tr2)
                          | (Inr posResults, tr2) \<Rightarrow>
                              (Inr (text_result rt (JObj [(''invoice'', invoiceResponse),
                                                          (''positions'', JArr posResults)])),
                               tr2))
                    else (Inr (text_result rt invoiceResponse), tr1))))"

definition update_invoice ::
  "js_runtime \<Rightarrow> backend \<Rightarrow> arguments \<Rightarrow> trace \<Rightarrow> (exn + tool_result) \<times> trace"
where
  "update_invoice rt be args tr =
     (case args of
        None \<Rightarrow> (Inl (TypeError DestructureNullish), tr)
      | Some a \<Rightarrow>
          (let invoiceId = lookup a ''invoiceId'';
               fields = rest_without ''invoiceId'' a
           in respond rt (request rt be (JStr ''PUT'')
                            (JStr (''/Invoice/'' @ js_to_string rt invoiceId)) (JObj fields)
                            JUndefined tr)))"

definition offer_payload :: "js_runtime \<Rightarrow> (string \<times> jsval) list \<Rightarrow> jsval" where
  "offer_payload rt a =
     (let contactId = lookup a ''contactId'';
          orderDate = lookup a ''orderDate'';
          header = lookup a ''header'';
          status = lookup a ''status''
      in JObj
        [(''contact'', JObj [(''id'', contactId), (''objectName'', JStr ''Contact'')]),
         (''orderType'', JStr ''AN''),
         (''status'', js_or status (JStr ''100'')),
         (''orderDate'', js_or orderDate (JStr (date_now_iso rt))),
         (''header'', js_or header (JStr ''Offer'')),
         (''mapAll'', JBool True)])"

definition create_offer ::
  "js_runtime \<Rightarrow> backend \<Rightarrow> arguments \<Rightarrow> trace \<Rightarrow> (exn + tool_result) \<times> trace"
where
  "create_offer rt be args tr =
     (case args of
        None \<Rightarrow> (Inl (TypeError DestructureNullish), tr)
      | Some a \<Rightarrow>
          (let positions = lookup a ''positions'' in
           case request rt be (JStr ''POST'') (JStr ''/Order'') (offer_payload rt a)
                  JUndefined tr of
             (Inl e, tr1) \<Rightarrow> (Inl e, tr1)
           | (Inr orderResponse, tr1) \<Rightarrow>
               (case created_id orderResponse of
                  Inl e \<Rightarrow> (Inl e, tr1)
                | Inr orderId \<Rightarrow>
                    if has_positions rt positions \<and> truthy orderId
                    then (case createPositions rt be orderId Order positions tr1 of
                            (Inl e, tr2) \<Rightarrow> (Inl e, tr2)
                          | (Inr posResults, tr2) \<Rightarrow>
                              (Inr (text_result rt (JObj [(''offer'', orderResponse),
                                                          (''positions'', JArr posResults)])),
                               tr2))
                    else (Inr (text_result rt orderResponse), tr1))))"

definition update_offer ::
  "js_runtime \<Rightarrow> backend \<Rightarrow> arguments \<Rightarrow> trace \<Rightarrow> (exn + tool_result) \<times> trace"
where
  "update_offer rt be args tr =
     (case args of
        None \<Rightarrow> (Inl (TypeError DestructureNullish), tr)
      | Some a \<Rightarrow>
          (let orderId = lookup a ''orderId'';
               fields = rest_without ''orderId'' a
           in respond rt (request rt be (JStr ''PUT'')
                            (JStr (''/Order/'' @ js_to_string rt orderId)) (JObj fields)
                            JUndefined tr)))"

text \<open>The names the \<^verbatim>\<open>ListToolsRequestSchema\<close> handler declares.\<close>

definition tool_names :: "string list" where
  "tool_names =
     [''request'', ''list_contacts'', ''create_contact'', ''update_contact'',
      ''list_invoices'', ''get_invoice_positions'', ''create_invoice'', ''update_invoice'',
      ''create_offer'', ''update_offer'']"

text \<open>The \<^verbatim>\<open>switch (name)\<close> of the \<^verbatim>\<open>CallToolRequestSchema\<close> handler.\<close>

definition dispatch ::
  "js_runtime \<Rightarrow> backend \<Rightarrow> string \<Rightarrow> arguments \<Rightarrow> trace \<Rightarrow> (exn + tool_result) \<times> trace"
where
  "dispatch rt be name args tr =
     (if name = ''request'' then tool_request rt be args tr
      else if name = ''list_contacts'' then list_contacts rt be args tr
      else if name = ''create_contact'' then create_contact rt be args tr
      else if name = ''update_contact'' then update_contact rt be args tr
      else if name = ''list_invoices'' then list_invoices rt be args tr
      else if name = ''get_invoice_positions'' then get_invoice_positions rt be args tr
      else if name = ''create_invoice'' then create_invoice rt be args tr
      else if name = ''update_invoice'' then update_invoice rt be args tr
      else if name = ''create_offer'' then create_offer rt be args tr
      else if name = ''update_offer'' then update_offer rt be args tr
      else (Inl (McpError MethodNotFound (''Unknown tool: '' @ name)), tr))"

text \<open>
  The handler: the switch inside \<^verbatim>\<open>try\<close>, and the \<^verbatim>\<open>catch\<close> that turns whatever was
  thrown into a result flagged as an error. It returns the result and the requests
  issued, in the order they were issued.
\<close>

definition error_result :: "js_runtime \<Rightarrow> exn \<Rightarrow> tool_result" where
  "error_result rt e = \<lparr>content_text = JStr (''Error: '' @ exn_message rt e), isError = True\<rparr>"

definition handler ::
  "js_runtime \<Rightarrow> backend \<Rightarrow> string \<Rightarrow> arguments \<Rightarrow> tool_result \<times> trace"
where
  "handler rt be name args =
     (case dispatch rt be name args [] of
        (Inl e, tr) \<Rightarrow> (error_result rt e, tr)
      | (Inr r, tr) \<Rightarrow> (r, tr))"

section \<open>Vocabulary of the statements\<close>

text \<open>Whether \<^const>\<open>request\<close> returns for a reply, what it returns, what it throws.\<close>

fun succeeded :: "http_reply \<Rightarrow> bool" where
  "succeeded (Reply st body) = (200 \<le> st \<and> st < 300)"
| "succeeded NoReply = False"
| "succeeded (Fault e) = False"

fun reply_body :: "http_reply \<Rightarrow> jsval" where
  "reply_body (Reply st body) = body"
| "reply_body NoReply = JUndefined"
| "reply_body (Fault e) = JUndefined"

fun thrown_for :: "js_runtime \<Rightarrow> http_reply \<Rightarrow> exn" where
  "thrown_for rt (Reply st body) = Error (api_error_message rt (Some (st, body)))"
| "thrown_for rt NoReply = Error (api_error_message rt None)"
| "thrown_for rt (Fault e) = e"

text \<open>The two tools that create a document, by the kind of the document.\<close>

fun document_tool :: "parentType \<Rightarrow> string" where
  "document_tool Invoice = ''create_invoice''"
| "document_tool Order = ''create_offer''"

fun document_request :: "js_runtime \<Rightarrow> parentType \<Rightarrow> (string \<times> jsval) list \<Rightarrow> http_request" where
  "document_request rt Invoice a =
     \<lparr>http_method = JStr ''POST'', url = JStr ''/Invoice'', data = invoice_payload rt a,
      params = JUndefined\<rparr>"
| "document_request rt Order a =
     \<lparr>http_method = JStr ''POST'', url = JStr ''/Order'', data = offer_payload rt a,
      params = JUndefined\<rparr>"

fun composite_key :: "parentType \<Rightarrow> string" where
  "composite_key Invoice = ''invoice''"
| "composite_key Order = ''offer''"

text \<open>The request the loop of \<^const>\<open>createPositions\<close> issues for a position that is not null.\<close>

definition line_item_request :: "jsval \<Rightarrow> parentType \<Rightarrow> jsval \<Rightarrow> http_request" where
  "line_item_request parentId pt pos =
     \<lparr>http_method = JStr ''POST'', url = JStr (endpoint pt),
      data = (case position_payload parentId pt pos of Inl e \<Rightarrow> JUndefined | Inr payload \<Rightarrow> payload),
      params = JUndefined\<rparr>"

text \<open>
  The reply to the request for position \<open>k\<close> (counted from 0), issued after the requests
  \<open>tr\<close> and the requests for the positions before it.
\<close>

definition line_item_reply ::
  "backend \<Rightarrow> trace \<Rightarrow> jsval \<Rightarrow> parentType \<Rightarrow> jsval list \<Rightarrow> nat \<Rightarrow> http_reply"
where
  "line_item_reply be tr parentId pt ps k =
     be (tr @ map (line_item_request parentId pt) (take k ps))
        (line_item_request parentId pt (ps ! k))"

text \<open>
  A run that starts after the requests \<open>tr0\<close> only adds requests, and a request of its
  own that failed is the exception it ends with.
\<close>

definition failures_reported ::
  "js_runtime \<Rightarrow> backend \<Rightarrow> trace \<Rightarrow> (exn + 'a) \<times> trace \<Rightarrow> bool"
where
  "failures_reported rt be tr0 out =
     (\<exists>ext. snd out = tr0 @ ext \<and>
        (\<forall>i<length ext. \<not> succeeded (be (tr0 @ take i ext) (ext ! i)) \<longrightarrow>
           fst out = Inl (thrown_for rt (be (tr0 @ take i ext) (ext ! i)))))"

section \<open>A runtime and backends for the examples\<close>

text \<open>
  The examples are evaluated with a runtime that prints whole numbers in decimal,
  reads a string of decimal digits as its number, and serialises values whose strings
  need no escape other than the quote and the backslash.
\<close>

fun digits :: "nat \<Rightarrow> string" where
  "digits n =
     (if n < 10 then [''0123456789'' ! n]
      else digits (n div 10) @ [''0123456789'' ! (n mod 10)])"

declare digits.simps [simp del]

definition decimal :: "rat \<Rightarrow> string" where
  "decimal r = (if r < 0 then CHR ''-'' # digits (nat (- \<lfloor>r\<rfloor>)) else digits (nat \<lfloor>r\<rfloor>))"

definition quoted :: "string \<Rightarrow> string" where
  "quoted s =
     CHR 0x22 #
     concat (map (\<lambda>c. if c = CHR 0x22 \<or> c = CHR 0x5C then [CHR 0x5C, c] else [c]) s)
     @ [CHR 0x22]"

fun render :: "string \<Rightarrow> string \<Rightarrow> jsval \<Rightarrow> string" where
  "render unit ind JUndefined = ''null''"
| "render unit ind JNull = ''null''"
| "render unit ind (JBool b) = (if b then ''true'' else ''false'')"
| "render unit ind (JNum n) = decimal n"
| "render unit ind (JStr s) = quoted s"
| "render unit ind (JArr xs) =
     (if xs = [] then ''[]''
      else let nl = (if unit = [] then [] else CHR 0x0A # ind @ unit);
               nl0 = (if unit = [] then [] else CHR 0x0A # ind)
           in ''['' @ nl
              @ join_with ('','' @ nl) (map (\<lambda>x. render unit (ind @ unit) x) xs)
              @ nl0 @ '']'')"
| "render unit ind (JObj fs) =
     (let gs = filter (\<lambda>kv. snd kv \<noteq> JUndefined) fs in
      if gs = [] then ''{}''
      else let nl = (if unit = [] then [] else CHR 0x0A # ind @ unit);
               nl0 = (if unit = [] then [] else CHR 0x0A # ind);
               colon = (if unit = [] then '':'' else '': '')
           in ''{'' @ nl
              @ join_with ('','' @ nl)
                  (map (\<lambda>kv. quoted (fst kv) @ colon @ render unit (ind @ unit) (snd kv)) gs)
              @ nl0 @ ''}'')"

definition sample_runtime :: js_runtime where
  "sample_runtime =
     \<lparr>date_now_iso = ''2026-01-15T09:30:00.000Z'',
      number_to_string = decimal,
      string_gt_zero = (\<lambda>s. s \<noteq> [] \<and> list_all (\<lambda>c. c \<in> set ''0123456789'') s
                              \<and> \<not> list_all (\<lambda>c. c = CHR ''0'') s),
      json_text = render [] [],
      json_text_indent2 = render ''  '' [],
      type_error_message = (\<lambda>f. case f of
          DestructureNullish \<Rightarrow> ''Cannot destructure args as it is undefined.''
        | ReadOfNullish v k \<Rightarrow> ''Cannot read properties of '' @ (if v = JNull then ''null'' else ''undefined'')
        | NotIterable v \<Rightarrow> ''positions is not iterable''),
      mcp_error_message = (\<lambda>c m. ''MCP error -32601: '' @ m)\<rparr>"

text \<open>
  A backend that creates whatever is posted: status 201, the new object under
  \<^verbatim>\<open>objects\<close>, its id the number of requests so far, its name the one posted.
\<close>

definition created :: "string \<Rightarrow> jsval \<Rightarrow> jsval" where
  "created i n = JObj [(''objects'', JObj [(''id'', JStr i), (''name'', n)])]"

definition backend_creating :: backend where
  "backend_creating tr req =
     Reply 201 (created (digits (Suc (length tr))) (opt_prop (data req) ''name''))"

text \<open>The same backend, out of order from its \<open>n\<close>-th request on (counted from 0).\<close>

definition backend_failing_from :: "nat \<Rightarrow> backend" where
  "backend_failing_from n tr req =
     (if length tr < n then backend_creating tr req
      else Reply 500 (JObj []))"

text \<open>A backend that cannot be reached.\<close>

definition backend_unreachable :: backend where
  "backend_unreachable tr req = NoReply"

text \<open>A backend that refuses every request with the given status and body.\<close>

definition backend_refusing :: "nat \<Rightarrow> jsval \<Rightarrow> backend" where
  "backend_refusing st body tr req = Reply st body"

definition widget :: jsval where
  "widget = JObj [(''name'', JStr ''Widget''), (''price'', JNum 10)]"

definition gadget :: jsval where
  "gadget = JObj [(''name'', JStr ''Gadget''), (''price'', JNum 25), (''quantity'', JNum 2),
                  (''text'', JStr ''blue'')]"

definition no_position_args :: "(string \<times> jsval) list" where
  "no_position_args = [(''contactId'', JStr ''5''), (''header'', JStr ''March'')]"

definition one_position_args :: "(string \<times> jsval) list" where
  "one_position_args = [(''contactId'', JStr ''5''), (''positions'', JArr [widget])]"

definition two_position_args :: "(string \<times> jsval) list" where
  "two_position_args = [(''contactId'', JStr ''5''), (''positions'', JArr [widget, gadget])]"

definition three_position_args :: "(string \<times> jsval) list" where
  "three_position_args =
     [(''contactId'', JStr ''5''), (''positions'', JArr [widget, gadget, widget])]"

section \<open>The request helper and the loop\<close>

lemma request_eq:
  "request rt be m u d p tr =
     (let req = \<lparr>http_method = m, url = u, data = d, params = p\<rparr>; r = be tr req in
      (if succeeded r then Inr (reply_body r) else Inl (thrown_for rt r), tr @ [req]))"
  by (cases "be tr \<lparr>http_method = m, url = u, data = d, params = p\<rparr>")
     (simp_all add: request_def Let_def)

lemma line_item_request_post:
  "\<not> nullish pos \<Longrightarrow> position_payload pid pt pos = Inr (data (line_item_request pid pt pos))"
  by (simp add: position_payload_def line_item_request_def)

lemma loop_step:
  assumes "\<not> nullish pos"
  shows "createPositions_loop rt be pid pt (pos # rest) results tr =
     (let r = be tr (line_item_request pid pt pos) in
      if succeeded r
      then createPositions_loop rt be pid pt rest (results @ [reply_body r])
             (tr @ [line_item_request pid pt pos])
      else (Inl (thrown_for rt r), tr @ [line_item_request pid pt pos]))"
proof -
  have req: "\<lparr>http_method = JStr ''POST'', url = JStr (endpoint pt),
       data = data (line_item_request pid pt pos), params = JUndefined\<rparr>
       = line_item_request pid pt pos"
    by (simp add: line_item_request_def)
  show ?thesis
    using assms
    by (simp add: line_item_request_post request_eq Let_def req)
qed

lemma line_item_reply_0:
  "line_item_reply be tr pid pt (pos # rest) 0 = be tr (line_item_request pid pt pos)"
  by (simp add: line_item_reply_def)

lemma line_item_reply_Suc:
  "line_item_reply be tr pid pt (pos # rest) (Suc k) =
   line_item_reply be (tr @ [line_item_request pid pt pos]) pid pt rest k"
  by (simp add: line_item_reply_def)

text \<open>When every position is sent and accepted, the loop sends them all, in order.\<close>

lemma loop_all_succeed:
  assumes "\<forall>k<length ps. \<not> nullish (ps ! k) \<and> succeeded (line_item_reply be tr pid pt ps k)"
  shows "createPositions_loop rt be pid pt ps results tr =
     (Inr (results @ map (\<lambda>k. reply_body (line_item_reply be tr pid pt ps k)) [0..<length ps]),
      tr @ map (line_item_request pid pt) ps)"
  using assms
proof (induction ps arbitrary: results tr)
  case Nil
  then show ?case by simp
next
  case (Cons pos rest)
  from Cons.prems have h0: "\<not> nullish pos" "succeeded (be tr (line_item_request pid pt pos))"
    by (auto simp: line_item_reply_0 dest: spec[of _ 0])
  have rest: "\<forall>k<length rest. \<not> nullish (rest ! k) \<and>
      succeeded (line_item_reply be (tr @ [line_item_request pid pt pos]) pid pt rest k)"
  proof (intro allI impI)
    fix k assume "k < length rest"
    then have "Suc k < length (pos # rest)" by simp
    with Cons.prems have "\<not> nullish ((pos # rest) ! Suc k) \<and>
        succeeded (line_item_reply be tr pid pt (pos # rest) (Suc k))" by blast
    then show "\<not> nullish (rest ! k) \<and>
      succeeded (line_item_reply be (tr @ [line_item_request pid pt pos]) pid pt rest k)"
      by (simp add: line_item_reply_Suc)
  qed
  have idx:
    "map (\<lambda>k. reply_body (line_item_reply be tr pid pt (pos # rest) k)) [0..<length (pos # rest)]
     = reply_body (be tr (line_item_request pid pt pos)) #
       map (\<lambda>k. reply_body
                  (line_item_reply be (tr @ [line_item_request pid pt pos]) pid pt rest k))
         [0..<length rest]"
    by (simp add: upt_conv_Cons map_Suc_upt[symmetric] line_item_reply_0 line_item_reply_Suc
          del: upt_Suc)
  show ?case
    by (simp only: loop_step[OF h0(1)] Let_def h0(2) if_True Cons.IH[OF rest] idx) simp
qed

text \<open>When the request for position \<open>k\<close> is the first to fail, it is the last one sent.\<close>

lemma loop_fails_at:
  assumes "k < length ps"
    and "\<forall>j<k. \<not> nullish (ps ! j) \<and> succeeded (line_item_reply be tr pid pt ps j)"
    and "\<not> nullish (ps ! k)"
    and "\<not> succeeded (line_item_reply be tr pid pt ps k)"
  shows "createPositions_loop rt be pid pt ps results tr =
     (Inl (thrown_for rt (line_item_reply be tr pid pt ps k)),
      tr @ map (line_item_request pid pt) (take (Suc k) ps))"
  using assms
proof (induction ps arbitrary: results tr k)
  case Nil
  then show ?case by simp
next
  case (Cons pos rest)
  show ?case
  proof (cases k)
    case 0
    with Cons.prems show ?thesis
      by (simp add: loop_step line_item_reply_0 Let_def del: createPositions_loop.simps)
  next
    case (Suc k')
    from Cons.prems Suc
    have h0: "\<not> nullish pos" "succeeded (be tr (line_item_request pid pt pos))"
      by (auto simp: line_item_reply_0 dest: spec[of _ 0])
    have a1: "k' < length rest" using Cons.prems Suc by simp
    have a2: "\<forall>j<k'. \<not> nullish (rest ! j) \<and>
        succeeded (line_item_reply be (tr @ [line_item_request pid pt pos]) pid pt rest j)"
    proof (intro allI impI)
      fix j assume "j < k'"
      then have "Suc j < k" using Suc by simp
      with Cons.prems(2) have "\<not> nullish ((pos # rest) ! Suc j) \<and>
        succeeded (line_item_reply be tr pid pt (pos # rest) (Suc j))" by blast
      then show "\<not> nullish (rest ! j) \<and>
        succeeded (line_item_reply be (tr @ [line_item_request pid pt pos]) pid pt rest j)"
        by (simp add: line_item_reply_Suc)
    qed
    have a3: "\<not> nullish (rest ! k')" using Cons.prems(3) Suc by simp
    have a4:
      "\<not> succeeded (line_item_reply be (tr @ [line_item_request pid pt pos]) pid pt rest k')"
      using Cons.prems(4) Suc by (simp add: line_item_reply_Suc)
    show ?thesis
      by (simp only: loop_step[OF h0(1)] Let_def h0(2) if_True Cons.IH[OF a1 a2 a3 a4])
         (simp add: Suc line_item_reply_Suc)
  qed
qed

text \<open>Whatever happens, the loop sends the requests of a prefix of the positions.\<close>

lemma loop_prefix:
  "\<exists>n\<le>length ps. snd (createPositions_loop rt be pid pt ps results tr) =
      tr @ map (line_item_request pid pt) (take n ps)"
proof (induction ps arbitrary: results tr)
  case Nil
  show ?case by simp
next
  case (Cons pos rest)
  show ?case
  proof (cases "nullish pos")
    case True
    then have "snd (createPositions_loop rt be pid pt (pos # rest) results tr) =
        tr @ map (line_item_request pid pt) (take 0 (pos # rest))"
      by (simp add: position_payload_def)
    then show ?thesis by blast
  next
    case False
    show ?thesis
    proof (cases "succeeded (be tr (line_item_request pid pt pos))")
      case True
      from Cons.IH[of "results @ [reply_body (be tr (line_item_request pid pt pos))]"
                      "tr @ [line_item_request pid pt pos]"]
      obtain n where n: "n \<le> length rest"
        "snd (createPositions_loop rt be pid pt rest
               (results @ [reply_body (be tr (line_item_request pid pt pos))])
               (tr @ [line_item_request pid pt pos])) =
         (tr @ [line_item_request pid pt pos]) @ map (line_item_request pid pt) (take n rest)"
        by blast
      have "snd (createPositions_loop rt be pid pt (pos # rest) results tr) =
          tr @ map (line_item_request pid pt) (take (Suc n) (pos # rest))"
        by (simp only: loop_step[OF False] Let_def True if_True n(2)) simp
      moreover have "Suc n \<le> length (pos # rest)" using n(1) by simp
      ultimately show ?thesis by blast
    next
      case bad: False
      have "snd (createPositions_loop rt be pid pt (pos # rest) results tr) =
          tr @ map (line_item_request pid pt) (take (Suc 0) (pos # rest))"
        by (simp only: loop_step[OF False] Let_def bad if_False) simp
      moreover have "Suc 0 \<le> length (pos # rest)" by simp
      ultimately show ?thesis by blast
    qed
  qed
qed

section \<open>The two document tools\<close>

lemma has_positions_array: "has_positions rt (JArr ps) = (ps \<noteq> [])"
  by (simp add: has_positions_def)

lemma has_positions_absent: "has_positions rt JUndefined = False"
  by (simp add: has_positions_def)

lemma dispatch_document:
  "dispatch rt be (document_tool pt) (Some a) [] =
     (let doc = document_request rt pt a; r = be [] doc; positions = lookup a ''positions'' in
      if \<not> succeeded r then (Inl (thrown_for rt r), [doc])
      else (case created_id (reply_body r) of
              Inl e \<Rightarrow> (Inl e, [doc])
            | Inr parentId \<Rightarrow>
                if has_positions rt positions \<and> truthy parentId
                then (case createPositions rt be parentId pt positions [doc] of
                        (Inl e, tr2) \<Rightarrow> (Inl e, tr2)
                      | (Inr posResults, tr2) \<Rightarrow>
                          (Inr (text_result rt (JObj [(composite_key pt, reply_body r),
                                                      (''positions'', JArr posResults)])),
                           tr2))
                else (Inr (text_result rt (reply_body r)), [doc])))"
  by (induction pt)
     (simp_all add: dispatch_def create_invoice_def create_offer_def request_eq Let_def
        split: sum.split prod.split)

lemma handler_document_success:
  assumes pos: "lookup a ''positions'' = JArr ps" "ps \<noteq> []"
    and doc: "succeeded (be [] (document_request rt pt a))"
    and cid: "created_id (reply_body (be [] (document_request rt pt a))) = Inr parentId"
             "truthy parentId"
    and items: "\<forall>k<length ps. \<not> nullish (ps ! k) \<and>
                  succeeded (line_item_reply be [document_request rt pt a] parentId pt ps k)"
  shows "handler rt be (document_tool pt) (Some a) =
     (text_result rt (JObj [(composite_key pt, reply_body (be [] (document_request rt pt a))),
        (''positions'', JArr (map (\<lambda>k. reply_body
            (line_item_reply be [document_request rt pt a] parentId pt ps k)) [0..<length ps]))]),
      document_request rt pt a # map (line_item_request parentId pt) ps)"
  by (simp add: handler_def dispatch_document Let_def pos doc cid has_positions_array
        createPositions_def loop_all_succeed[OF items])

lemma handler_document_failure:
  assumes pos: "lookup a ''positions'' = JArr ps" "k < length ps"
    and doc: "succeeded (be [] (document_request rt pt a))"
    and cid: "created_id (reply_body (be [] (document_request rt pt a))) = Inr parentId"
             "truthy parentId"
    and before: "\<forall>j<k. \<not> nullish (ps ! j) \<and>
                  succeeded (line_item_reply be [document_request rt pt a] parentId pt ps j)"
    and here: "\<not> nullish (ps ! k)"
              "\<not> succeeded (line_item_reply be [document_request rt pt a] parentId pt ps k)"
  shows "handler rt be (document_tool pt) (Some a) =
     (error_result rt (thrown_for rt
        (line_item_reply be [document_request rt pt a] parentId pt ps k)),
      document_request rt pt a # map (line_item_request parentId pt) (take (Suc k) ps))"
proof -
  have ne: "ps \<noteq> []" using pos(2) by auto
  show ?thesis
    by (simp add: handler_def dispatch_document Let_def pos(1) ne doc cid has_positions_array
        createPositions_def loop_fails_at[OF pos(2) before here])
qed

lemma handler_document_bare:
  assumes doc: "succeeded (be [] (document_request rt pt a))"
    and cid: "created_id (reply_body (be [] (document_request rt pt a))) = Inr parentId"
    and no: "\<not> (has_positions rt (lookup a ''positions'') \<and> truthy parentId)"
  shows "handler rt be (document_tool pt) (Some a) =
     (text_result rt (reply_body (be [] (document_request rt pt a))),
      [document_request rt pt a])"
proof -
  have "(if has_positions rt (lookup a ''positions'') \<and> truthy parentId then x else y) = y"
    for x y :: "(exn + tool_result) \<times> trace"
    using no by auto
  then show ?thesis
    by (simp add: handler_def dispatch_document Let_def doc cid)
qed

section \<open>Failures end the invocation\<close>

lemma fr_nothing: "failures_reported rt be tr (x, tr)"
  by (simp add: failures_reported_def)

lemma fr_after:
  assumes ok: "succeeded (be tr req)"
    and rest: "failures_reported rt be (tr @ [req]) out"
  shows "failures_reported rt be tr out"
proof -
  from rest obtain ext where ext: "snd out = (tr @ [req]) @ ext"
    and rep: "\<forall>i<length ext. \<not> succeeded (be ((tr @ [req]) @ take i ext) (ext ! i)) \<longrightarrow>
        fst out = Inl (thrown_for rt (be ((tr @ [req]) @ take i ext) (ext ! i)))"
    unfolding failures_reported_def by blast
  have "\<forall>i<length (req # ext).
        \<not> succeeded (be (tr @ take i (req # ext)) ((req # ext) ! i)) \<longrightarrow>
        fst out = Inl (thrown_for rt (be (tr @ take i (req # ext)) ((req # ext) ! i)))"
  proof (intro allI impI)
    fix i assume i: "i < length (req # ext)"
      and bad: "\<not> succeeded (be (tr @ take i (req # ext)) ((req # ext) ! i))"
    show "fst out = Inl (thrown_for rt (be (tr @ take i (req # ext)) ((req # ext) ! i)))"
    proof (cases i)
      case 0
      with bad ok show ?thesis by simp
    next
      case (Suc j)
      with i bad rep show ?thesis by simp
    qed
  qed
  moreover have "snd out = tr @ (req # ext)" using ext by simp
  ultimately show ?thesis unfolding failures_reported_def by blast
qed

lemma fr_after_first:
  assumes "succeeded (be [] req)" and "failures_reported rt be [req] out"
  shows "failures_reported rt be [] out"
  using fr_after[of be "[]" req rt out] assms by simp

lemma fr_respond: "failures_reported rt be tr (respond rt (request rt be m u d p tr))"
  by (simp add: request_eq Let_def failures_reported_def)

lemma fr_loop: "failures_reported rt be tr (createPositions_loop rt be pid pt ps results tr)"
proof (induction ps arbitrary: results tr)
  case Nil
  show ?case by (simp add: fr_nothing)
next
  case (Cons pos rest)
  show ?case
  proof (cases "nullish pos")
    case True
    then show ?thesis by (simp add: position_payload_def fr_nothing)
  next
    case False
    show ?thesis
    proof (cases "succeeded (be tr (line_item_request pid pt pos))")
      case True
      then show ?thesis
        by (simp only: loop_step[OF False] Let_def if_True)
           (rule fr_after[of be tr "line_item_request pid pt pos", OF True Cons.IH])
    next
      case bad: False
      then show ?thesis
        by (simp only: loop_step[OF False] Let_def if_False)
           (simp add: failures_reported_def)
    qed
  qed
qed

lemma fr_createPositions:
  "failures_reported rt be tr (createPositions rt be pid pt positions tr)"
  by (cases "iterate positions") (simp_all add: createPositions_def fr_nothing fr_loop)

lemma fr_lift:
  assumes "failures_reported rt be tr out"
  shows "failures_reported rt be tr
           (case out of (Inl e, tr2) \<Rightarrow> (Inl e, tr2) | (Inr rs, tr2) \<Rightarrow> (Inr (f rs), tr2))"
  using assms
  by (cases out; cases "fst out") (auto simp: failures_reported_def)

lemma fr_document:
  "failures_reported rt be [] (dispatch rt be (document_tool pt) (Some a) [])"
proof (cases "succeeded (be [] (document_request rt pt a))")
  case False
  then show ?thesis
    by (simp add: dispatch_document Let_def failures_reported_def)
next
  case True
  have one: "failures_reported rt be [] (x, [document_request rt pt a])"
    for x :: "exn + tool_result"
    by (rule fr_after_first[of be "document_request rt pt a", OF True]) (rule fr_nothing)
  have two: "failures_reported rt be []
      (case createPositions rt be pid pt positions [document_request rt pt a] of
         (Inl e, tr2) \<Rightarrow> (Inl e, tr2) | (Inr rs, tr2) \<Rightarrow> (Inr (f rs), tr2))"
    for pid positions and f :: "jsval list \<Rightarrow> tool_result"
    by (rule fr_after_first[of be "document_request rt pt a", OF True])
       (rule fr_lift[OF fr_createPositions])
  show ?thesis
    by (simp add: dispatch_document Let_def True one two split: sum.split)
qed

lemma fr_dispatch: "failures_reported rt be [] (dispatch rt be name args [])"
proof (cases args)
  case None
  then show ?thesis
    by (simp add: dispatch_def tool_request_def list_contacts_def create_contact_def
        update_contact_def list_invoices_def get_invoice_positions_def create_invoice_def
        update_invoice_def create_offer_def update_offer_def fr_nothing)
next
  case (Some a)
  have inv: "failures_reported rt be [] (create_invoice rt be (Some a) [])"
    using fr_document[of rt be Invoice a] by (simp add: dispatch_def)
  have off: "failures_reported rt be [] (create_offer rt be (Some a) [])"
    using fr_document[of rt be Order a] by (simp add: dispatch_def)
  show ?thesis
    unfolding dispatch_def Some
    by (simp add: inv off fr_nothing)
       (simp add: tool_request_def list_contacts_def create_contact_def
        update_contact_def list_invoices_def get_invoice_positions_def
        update_invoice_def update_offer_def Let_def fr_respond)
qed

lemma refused_reported:
  assumes run: "handler rt be name args = (res, tr)"
    and i: "i < length tr"
    and bad: "\<not> succeeded (be (take i tr) (tr ! i))"
  shows "res = error_result rt (thrown_for rt (be (take i tr) (tr ! i)))"
proof -
  obtain r tr' where d: "dispatch rt be name args [] = (r, tr')"
    by (cases "dispatch rt be name args []")
  from run d have tr: "tr' = tr" by (cases r) (simp_all add: handler_def)
  from fr_dispatch[of rt be name args] d tr
  have "r = Inl (thrown_for rt (be (take i tr) (tr ! i)))"
    using i bad by (auto simp: failures_reported_def)
  with run d show ?thesis by (simp add: handler_def)
qed

section \<open>Requests of single tools\<close>

lemma composite_differs: "JObj [(k, body), (''positions'', JArr rs)] \<noteq> body"
proof
  assume "JObj [(k, body), (''positions'', JArr rs)] = body"
  then have "size (JObj [(k, body), (''positions'', JArr rs)]) = size body" by simp
  then show False by simp
qed

lemma list_contacts_request:
  "snd (handler rt be ''list_contacts'' (Some a)) =
     [\<lparr>http_method = JStr ''GET'', url = JStr ''/Contact'', data = JUndefined,
        params = JObj (
          [(''limit'', default_to (lookup a ''limit'') (JNum 50)),
           (''offset'', default_to (lookup a ''offset'') (JNum 0)),
           (''countAll'', JBool True)]
          @ (if truthy (lookup a ''depth'') then [(''embed'', JStr ''category,parent'')] else [])
          @ (if truthy (lookup a ''customerNumber'')
             then [(''customerNumber'', lookup a ''customerNumber'')] else []))\<rparr>]"
  by (simp add: handler_def dispatch_def list_contacts_def request_eq Let_def
        split: sum.split prod.split)

lemma list_invoices_request:
  "snd (handler rt be ''list_invoices'' (Some a)) =
     [\<lparr>http_method = JStr ''GET'', url = JStr ''/Invoice'', data = JUndefined,
        params = JObj (
          [(''limit'', default_to (lookup a ''limit'') (JNum 50)),
           (''offset'', default_to (lookup a ''offset'') (JNum 0)),
           (''countAll'', JBool True)]
          @ (if truthy (lookup a ''status'') then [(''status'', lookup a ''status'')] else [])
          @ (if truthy (lookup a ''contactId'')
             then [(''contact[id]'', lookup a ''contactId'')] else []))\<rparr>]"
  by (simp add: handler_def dispatch_def list_invoices_def request_eq Let_def
        split: sum.split prod.split)

lemma createPositions_prefix:
  "\<exists>n\<le>length ps. snd (createPositions rt be parentId pt (JArr ps) tr) =
      tr @ map (line_item_request parentId pt) (take n ps)"
  using loop_prefix[of ps rt be parentId pt "[]" tr] by (simp add: createPositions_def)

lemma line_item_request_object:
  "line_item_request parentId pt (JObj fs) =
     \<lparr>http_method = JStr ''POST'',
      url = JStr (case pt of Invoice \<Rightarrow> ''/InvoicePos'' | Order \<Rightarrow> ''/OrderPos''),
      data = JObj (
        [(case pt of Invoice \<Rightarrow> ''invoice'' | Order \<Rightarrow> ''order'',
          JObj [(''id'', parentId),
                (''objectName'', JStr (case pt of Invoice \<Rightarrow> ''Invoice'' | Order \<Rightarrow> ''Order''))]),
         (''quantity'', if truthy (lookup fs ''quantity'') then lookup fs ''quantity'' else JNum 1),
         (''price'', lookup fs ''price''),
         (''name'', lookup fs ''name''),
         (''unity'', JObj [(''id'', if truthy (lookup fs ''unityId'') then lookup fs ''unityId''
                                    else JStr ''1''),
                          (''objectName'', JStr ''Unity'')]),
         (''taxRate'', if truthy (lookup fs ''taxRate'') then lookup fs ''taxRate'' else JNum 0),
         (''mapAll'', JBool True)]
        @ (if truthy (lookup fs ''text'') then [(''text'', lookup fs ''text'')] else [])),
      params = JUndefined\<rparr>"
  by (cases pt) (simp_all add: line_item_request_def position_payload_def js_or_def)

lemma single_position_trace:
  assumes "\<not> nullish pos"
  shows "snd (createPositions rt be parentId pt (JArr [pos]) tr) =
           tr @ [line_item_request parentId pt pos]"
  by (simp only: createPositions_def iterate.simps sum.case loop_step[OF assms] Let_def)
     (simp split: if_splits)

lemma offer_example_trace:
  assumes doc: "be [] (document_request rt Order a) = Reply st body" "200 \<le> st" "st < 300"
    and cid: "created_id body = Inr orderId" "truthy orderId"
    and pos: "lookup a ''positions'' = JArr [JObj fs]"
  shows "snd (handler rt be ''create_offer'' (Some a)) =
           [document_request rt Order a, line_item_request orderId Order (JObj fs)]"
proof -
  have ok: "succeeded (be [] (document_request rt Order a))"
    and body: "reply_body (be [] (document_request rt Order a)) = body"
    using doc by simp_all
  have d: "dispatch rt be ''create_offer'' (Some a) [] =
      (case createPositions rt be orderId Order (JArr [JObj fs]) [document_request rt Order a] of
         (Inl e, tr2) \<Rightarrow> (Inl e, tr2)
       | (Inr posResults, tr2) \<Rightarrow>
           (Inr (text_result rt (JObj [(''offer'', body), (''positions'', JArr posResults)])), tr2))"
    using dispatch_document[of rt be Order a] ok body
    by (simp add: Let_def cid pos has_positions_array del: document_request.simps
          split: prod.split sum.split)
  have s: "snd (createPositions rt be orderId Order (JArr [JObj fs]) [document_request rt Order a])
      = [document_request rt Order a, line_item_request orderId Order (JObj fs)]"
    using single_position_trace[of "JObj fs" rt be orderId Order "[document_request rt Order a]"]
    by (simp del: document_request.simps)
  show ?thesis
  proof (cases "createPositions rt be orderId Order (JArr [JObj fs]) [document_request rt Order a]")
    case (Pair r tr2)
    with s show ?thesis
      by (cases r) (simp_all add: handler_def d del: document_request.simps)
  qed
qed

section \<open>Evaluating the examples\<close>

lemma created_id_created: "created_id (created i n) = Inr (if i = [] then JUndefined else JStr i)"
  by (simp add: created_id_def created_def opt_prop_def lookup_def js_or_def)

lemma digits_small:
  "digits (Suc 0) = ''1''" "digits (Suc (Suc 0)) = ''2''" "digits (Suc (Suc (Suc 0))) = ''3''"
  by (simp_all add: digits.simps)

lemma name_of_line_item:
  "opt_prop (data (line_item_request pid pt (JObj fs))) ''name'' = lookup fs ''name''"
  by (cases pt) (simp_all add: line_item_request_def position_payload_def opt_prop_def lookup_def)

lemma error_500:
  "error_result sample_runtime (Error (api_error_message sample_runtime (Some (500, JObj [])))) =
      \<lparr>content_text = JStr ''Error: SevDesk API Error: 500 - {}'', isError = True\<rparr>"
  by (simp add: error_result_def api_error_message_def sample_runtime_def JSON_stringify_def
        decimal_def digits.simps)

lemma document_reply_creating:
  "backend_creating [] (document_request rt pt a) = Reply 201 (created ''1'' JUndefined)"
  by (cases pt)
     (simp_all add: backend_creating_def digits_small opt_prop_def invoice_payload_def
        offer_payload_def Let_def lookup_def)

lemma document_reply_failing_from:
  "0 < n \<Longrightarrow>
   backend_failing_from n [] (document_request rt pt a) = Reply 201 (created ''1'' JUndefined)"
  by (simp add: backend_failing_from_def document_reply_creating)

section \<open>The claims\<close>

text \<open>
  C1, as amended. \<^verbatim>\<open>create_invoice\<close> is called with a non-empty list \<open>ps\<close> as \<^verbatim>\<open>positions\<close>,
  the POST of the document succeeds and its body yields an id (\<^verbatim>\<open>objects.id\<close> first,
  the top-level \<^verbatim>\<open>id\<close> otherwise), no position is \<^verbatim>\<open>null\<close> and the request for every
  position succeeds. Then the requests sent are the POST of the document followed by
  one POST per position, in the order of \<open>ps\<close>, each stamped with that id, and the
  result is the composite of the document's body and the bodies returned for the
  positions, in the same order.
\<close>

theorem create_invoice_positions_in_order:
  assumes pos: "lookup a ''positions'' = JArr ps" "ps \<noteq> []"
    and doc: "be [] (document_request rt Invoice a) = Reply st body" "200 \<le> st" "st < 300"
    and cid: "created_id body = Inr invoiceId" "truthy invoiceId"
    and items: "\<forall>k<length ps. \<not> nullish (ps ! k) \<and>
        succeeded (line_item_reply be [document_request rt Invoice a] invoiceId Invoice ps k)"
  shows "handler rt be ''create_invoice'' (Some a) =
     (text_result rt (JObj [(''invoice'', body),
        (''positions'', JArr (map (\<lambda>k. reply_body
            (line_item_reply be [document_request rt Invoice a] invoiceId Invoice ps k))
          [0..<length ps]))]),
      document_request rt Invoice a # map (line_item_request invoiceId Invoice) ps)"
proof -
  have ok: "succeeded (be [] (document_request rt Invoice a))"
    and body: "reply_body (be [] (document_request rt Invoice a)) = body"
    using doc by simp_all
  from cid(1) body
  have cid': "created_id (reply_body (be [] (document_request rt Invoice a))) = Inr invoiceId"
    by simp
  from handler_document_success[OF pos ok cid' cid(2) items] body
  show ?thesis by simp
qed

text \<open>An invoice with two positions against a backend that creates both.\<close>

theorem create_invoice_positions_in_order_witness:
  "lookup two_position_args ''positions'' = JArr [widget, gadget]
   \<and> backend_creating [] (document_request sample_runtime Invoice two_position_args) =
       Reply 201 (created ''1'' JUndefined)
   \<and> created_id (created ''1'' JUndefined) = Inr (JStr ''1'')
   \<and> succeeded (line_item_reply backend_creating
         [document_request sample_runtime Invoice two_position_args] (JStr ''1'') Invoice
         [widget, gadget] 0)
   \<and> succeeded (line_item_reply backend_creating
         [document_request sample_runtime Invoice two_position_args] (JStr ''1'') Invoice
         [widget, gadget] 1)
   \<and> handler sample_runtime backend_creating ''create_invoice'' (Some two_position_args) =
       (text_result sample_runtime
          (JObj [(''invoice'', created ''1'' JUndefined),
                 (''positions'', JArr [created ''2'' (JStr ''Widget''),
                                       created ''3'' (JStr ''Gadget'')])]),
        [document_request sample_runtime Invoice two_position_args,
         line_item_request (JStr ''1'') Invoice widget,
         line_item_request (JStr ''1'') Invoice gadget])"
proof -
  have pos: "lookup two_position_args ''positions'' = JArr [widget, gadget]" "[widget, gadget] \<noteq> []"
    by (simp_all add: two_position_args_def lookup_def)
  have doc: "backend_creating [] (document_request sample_runtime Invoice two_position_args) =
       Reply 201 (created ''1'' JUndefined)"
    by (simp add: backend_creating_def digits_small opt_prop_def invoice_payload_def Let_def lookup_def)
  have cid: "created_id (created ''1'' JUndefined) = Inr (JStr ''1'')" "truthy (JStr ''1'')"
    by (simp_all add: created_id_created)
  have r0: "line_item_reply backend_creating
         [document_request sample_runtime Invoice two_position_args] (JStr ''1'') Invoice
         [widget, gadget] 0 = Reply 201 (created ''2'' (JStr ''Widget''))"
    by (simp add: line_item_reply_def backend_creating_def digits_small widget_def
          name_of_line_item lookup_def)
  have r1: "line_item_reply backend_creating
         [document_request sample_runtime Invoice two_position_args] (JStr ''1'') Invoice
         [widget, gadget] 1 = Reply 201 (created ''3'' (JStr ''Gadget''))"
    by (simp add: line_item_reply_def backend_creating_def digits_small gadget_def
          name_of_line_item lookup_def)
  have items: "\<forall>k<length [widget, gadget]. \<not> nullish ([widget, gadget] ! k) \<and>
        succeeded (line_item_reply backend_creating
          [document_request sample_runtime Invoice two_position_args] (JStr ''1'') Invoice
          [widget, gadget] k)"
    using r0 r1 by (auto simp: less_Suc_eq widget_def gadget_def)
  have idx: "[0..<length [widget, gadget]] = [0, 1]"
    by (simp add: upt_conv_Cons)
  show ?thesis
    using create_invoice_positions_in_order[OF pos doc _ _ cid items] pos(1) doc cid(1) r0 r1
    by (simp add: idx)
qed

text \<open>
  Without the condition on the requests for the positions the statement fails: with
  two positions and a backend that refuses its second request, the id is resolved, one
  line-item POST is sent and the result is an error.
\<close>

theorem create_invoice_line_item_refused:
  "lookup two_position_args ''positions'' = JArr [widget, gadget]
   \<and> backend_failing_from 1 [] (document_request sample_runtime Invoice two_position_args) =
       Reply 201 (created ''1'' JUndefined)
   \<and> created_id (created ''1'' JUndefined) = Inr (JStr ''1'')
   \<and> handler sample_runtime (backend_failing_from 1) ''create_invoice'' (Some two_position_args) =
       (\<lparr>content_text = JStr ''Error: SevDesk API Error: 500 - {}'', isError = True\<rparr>,
        [document_request sample_runtime Invoice two_position_args,
         line_item_request (JStr ''1'') Invoice widget])
   \<and> snd (handler sample_runtime (backend_failing_from 1) ''create_invoice''
           (Some two_position_args)) \<noteq>
       document_request sample_runtime Invoice two_position_args #
       map (line_item_request (JStr ''1'') Invoice) [widget, gadget]"
proof -
  have pos: "lookup two_position_args ''positions'' = JArr [widget, gadget]"
    by (simp_all add: two_position_args_def lookup_def)
  have doc: "backend_failing_from 1 [] (document_request sample_runtime Invoice two_position_args) =
       Reply 201 (created ''1'' JUndefined)"
    by (simp add: backend_failing_from_def backend_creating_def digits_small opt_prop_def
          invoice_payload_def Let_def lookup_def)
  have ok: "succeeded (backend_failing_from 1 []
              (document_request sample_runtime Invoice two_position_args))"
    and body: "reply_body (backend_failing_from 1 []
              (document_request sample_runtime Invoice two_position_args)) = created ''1'' JUndefined"
    unfolding doc by simp_all
  have cid: "created_id (created ''1'' JUndefined) = Inr (JStr ''1'')" "truthy (JStr ''1'')"
    by (simp_all add: created_id_created)
  have r0: "line_item_reply (backend_failing_from 1)
         [document_request sample_runtime Invoice two_position_args] (JStr ''1'') Invoice
         [widget, gadget] 0 = Reply 500 (JObj [])"
    by (simp add: line_item_reply_def backend_failing_from_def)
  have run: "handler sample_runtime (backend_failing_from 1) (document_tool Invoice)
               (Some two_position_args) =
       (error_result sample_runtime (thrown_for sample_runtime (Reply 500 (JObj []))),
        document_request sample_runtime Invoice two_position_args #
        map (line_item_request (JStr ''1'') Invoice) (take (Suc 0) [widget, gadget]))"
    using handler_document_failure[where a = two_position_args and ps = "[widget, gadget]"
        and k = 0 and be = "backend_failing_from 1" and rt = sample_runtime and pt = Invoice
        and parentId = "JStr ''1''"] pos ok body cid r0
    by (simp add: widget_def)
  have msg: "error_result sample_runtime
        (Error (api_error_message sample_runtime (Some (500, JObj [])))) =
      \<lparr>content_text = JStr ''Error: SevDesk API Error: 500 - {}'', isError = True\<rparr>"
    by (simp add: error_result_def api_error_message_def sample_runtime_def JSON_stringify_def
          decimal_def digits.simps)
  show ?thesis
    using run pos doc cid(1) by (simp add: msg)
qed

text \<open>
  C2. \<^verbatim>\<open>create_invoice\<close> or \<^verbatim>\<open>create_offer\<close> (\<^const>\<open>document_tool\<close> of the kind) is
  called with a list \<open>ps\<close> as \<^verbatim>\<open>positions\<close>, the document is created and its id
  resolved, the requests for the positions before \<open>k\<close> (counted from 0) succeed and the
  request for position \<open>k\<close> fails. Then the requests sent are the POST of the document and
  the POSTs for the positions up to \<open>k\<close>, and nothing else: no request for a later
  position, no request that undoes the document or a position. The result is flagged as
  an error and carries the message of the failed request.
\<close>

theorem line_item_failure_aborts:
  assumes pos: "lookup a ''positions'' = JArr ps" "k < length ps"
    and doc: "be [] (document_request rt pt a) = Reply st body" "200 \<le> st" "st < 300"
    and cid: "created_id body = Inr parentId" "truthy parentId"
    and before: "\<forall>j<k. \<not> nullish (ps ! j) \<and>
        succeeded (line_item_reply be [document_request rt pt a] parentId pt ps j)"
    and here: "\<not> nullish (ps ! k)"
        "\<not> succeeded (line_item_reply be [document_request rt pt a] parentId pt ps k)"
  shows "handler rt be (document_tool pt) (Some a) =
     (\<lparr>content_text = JStr (''Error: '' @ exn_message rt (thrown_for rt
          (line_item_reply be [document_request rt pt a] parentId pt ps k))),
        isError = True\<rparr>,
      document_request rt pt a # map (line_item_request parentId pt) (take (Suc k) ps))"
proof -
  have ok: "succeeded (be [] (document_request rt pt a))"
    and body: "reply_body (be [] (document_request rt pt a)) = body"
    using doc by simp_all
  from cid(1) body
  have cid': "created_id (reply_body (be [] (document_request rt pt a))) = Inr parentId"
    by simp
  from handler_document_failure[OF pos ok cid' cid(2) before here]
  show ?thesis by (simp add: error_result_def)
qed

text \<open>An offer with three positions; the backend refuses the second of them.\<close>

theorem line_item_failure_aborts_witness:
  "lookup three_position_args ''positions'' = JArr [widget, gadget, widget]
   \<and> backend_failing_from 2 [] (document_request sample_runtime Order three_position_args) =
       Reply 201 (created ''1'' JUndefined)
   \<and> created_id (created ''1'' JUndefined) = Inr (JStr ''1'')
   \<and> succeeded (line_item_reply (backend_failing_from 2)
         [document_request sample_runtime Order three_position_args] (JStr ''1'') Order
         [widget, gadget, widget] 0)
   \<and> line_item_reply (backend_failing_from 2)
         [document_request sample_runtime Order three_position_args] (JStr ''1'') Order
         [widget, gadget, widget] 1 = Reply 500 (JObj [])
   \<and> handler sample_runtime (backend_failing_from 2) ''create_offer'' (Some three_position_args) =
       (\<lparr>content_text = JStr ''Error: SevDesk API Error: 500 - {}'', isError = True\<rparr>,
        [document_request sample_runtime Order three_position_args,
         line_item_request (JStr ''1'') Order widget,
         line_item_request (JStr ''1'') Order gadget])"
proof -
  have pos: "lookup three_position_args ''positions'' = JArr [widget, gadget, widget]"
    "1 < length [widget, gadget, widget]"
    by (simp_all add: three_position_args_def lookup_def)
  have doc: "backend_failing_from 2 [] (document_request sample_runtime Order three_position_args) =
       Reply 201 (created ''1'' JUndefined)"
    by (rule document_reply_failing_from) simp
  have cid: "created_id (created ''1'' JUndefined) = Inr (JStr ''1'')" "truthy (JStr ''1'')"
    by (simp_all add: created_id_created)
  have r0: "line_item_reply (backend_failing_from 2)
         [document_request sample_runtime Order three_position_args] (JStr ''1'') Order
         [widget, gadget, widget] 0 = Reply 201 (created ''2'' (JStr ''Widget''))"
    by (simp add: line_item_reply_def backend_failing_from_def backend_creating_def digits_small
          widget_def name_of_line_item lookup_def)
  have r1: "line_item_reply (backend_failing_from 2)
         [document_request sample_runtime Order three_position_args] (JStr ''1'') Order
         [widget, gadget, widget] 1 = Reply 500 (JObj [])"
    by (simp add: line_item_reply_def backend_failing_from_def)
  have before: "\<forall>j<1. \<not> nullish ([widget, gadget, widget] ! j) \<and>
        succeeded (line_item_reply (backend_failing_from 2)
          [document_request sample_runtime Order three_position_args] (JStr ''1'') Order
          [widget, gadget, widget] j)"
    using r0 by (simp add: widget_def)
  have here: "\<not> nullish ([widget, gadget, widget] ! 1)"
     "\<not> succeeded (line_item_reply (backend_failing_from 2)
          [document_request sample_runtime Order three_position_args] (JStr ''1'') Order
          [widget, gadget, widget] 1)"
    using r1 by (simp_all add: gadget_def)
  have msg: "JStr (''Error: '' @ exn_message sample_runtime
        (thrown_for sample_runtime (Reply 500 (JObj [])))) =
      JStr ''Error: SevDesk API Error: 500 - {}''"
    using error_500 by (simp add: error_result_def)
  have two: "take (Suc 1) [widget, gadget, widget] = [widget, gadget]"
    by simp
  show ?thesis
    using line_item_failure_aborts[OF pos doc _ _ cid before here] pos(1) doc cid(1) r0 r1 msg
    by (simp only: two document_tool.simps list.map succeeded.simps) simp
qed

text \<open>
  C3. For a position that is an object with the fields \<open>fs\<close>, the request of
  \<^const>\<open>createPositions\<close> is a POST to \<^verbatim>\<open>/InvoicePos\<close> or \<^verbatim>\<open>/OrderPos\<close> whose body has:
  the parent under \<^verbatim>\<open>invoice\<close> or \<^verbatim>\<open>order\<close>, with the parent's id and the tag
  \<^verbatim>\<open>Invoice\<close> or \<^verbatim>\<open>Order\<close>; \<^verbatim>\<open>quantity\<close>, 1 unless a truthy one is supplied;
  \<^verbatim>\<open>price\<close> and \<^verbatim>\<open>name\<close> as supplied; \<^verbatim>\<open>unity\<close> with the tag \<^verbatim>\<open>Unity\<close> and the id
  \<^verbatim>\<open>"1"\<close> unless a truthy \<^verbatim>\<open>unityId\<close> is supplied; \<^verbatim>\<open>taxRate\<close>, 0 unless a truthy
  one is supplied; \<^verbatim>\<open>mapAll\<close> set; \<^verbatim>\<open>text\<close> when a truthy one is supplied, and no
  \<^verbatim>\<open>text\<close> otherwise. A field that is not supplied reads as \<^verbatim>\<open>undefined\<close>, which is
  not truthy, so each default applies when its field is not supplied. The requests
  \<^const>\<open>createPositions\<close> sends for a list are these requests for a prefix of the list.
  And \<^verbatim>\<open>create_offer({contactId: "5", positions: [{name: "Widget", price: 10}]})\<close>, when
  the POST of the order succeeds and yields an id, sends that POST, with
  \<^verbatim>\<open>orderType: "AN"\<close>, and then exactly one POST of a position, which refers to the id
  and has quantity 1, taxRate 0 and unity \<^verbatim>\<open>{id: "1", objectName: "Unity"}\<close>.
\<close>

theorem position_payload_shape:
  "(\<exists>P. line_item_request parentId pt (JObj fs) =
          \<lparr>http_method = JStr ''POST'',
           url = JStr (case pt of Invoice \<Rightarrow> ''/InvoicePos'' | Order \<Rightarrow> ''/OrderPos''),
           data = JObj P, params = JUndefined\<rparr>
      \<and> lookup P (case pt of Invoice \<Rightarrow> ''invoice'' | Order \<Rightarrow> ''order'') =
          JObj [(''id'', parentId),
                (''objectName'', JStr (case pt of Invoice \<Rightarrow> ''Invoice'' | Order \<Rightarrow> ''Order''))]
      \<and> lookup P ''quantity'' =
          (if truthy (lookup fs ''quantity'') then lookup fs ''quantity'' else JNum 1)
      \<and> lookup P ''price'' = lookup fs ''price''
      \<and> lookup P ''name'' = lookup fs ''name''
      \<and> lookup P ''unity'' =
          JObj [(''id'', if truthy (lookup fs ''unityId'') then lookup fs ''unityId''
                         else JStr ''1''),
                (''objectName'', JStr ''Unity'')]
      \<and> lookup P ''taxRate'' =
          (if truthy (lookup fs ''taxRate'') then lookup fs ''taxRate'' else JNum 0)
      \<and> lookup P ''mapAll'' = JBool True
      \<and> (if truthy (lookup fs ''text'') then lookup P ''text'' = lookup fs ''text''
          else ''text'' \<notin> fst ` set P))
   \<and> (\<exists>n\<le>length ps. snd (createPositions rt be parentId pt (JArr ps) tr) =
          tr @ map (line_item_request parentId pt) (take n ps))
   \<and> (be [] \<lparr>http_method = JStr ''POST'', url = JStr ''/Order'',
              data = JObj [(''contact'', JObj [(''id'', JStr ''5''), (''objectName'', JStr ''Contact'')]),
                           (''orderType'', JStr ''AN''),
                           (''status'', JStr ''100''),
                           (''orderDate'', JStr (date_now_iso rt)),
                           (''header'', JStr ''Offer''),
                           (''mapAll'', JBool True)],
              params = JUndefined\<rparr> = Reply st body
        \<and> 200 \<le> st \<and> st < 300 \<and> created_id body = Inr orderId \<and> truthy orderId \<longrightarrow>
      snd (handler rt be ''create_offer''
             (Some [(''contactId'', JStr ''5''),
                    (''positions'', JArr [JObj [(''name'', JStr ''Widget''), (''price'', JNum 10)]])])) =
        [\<lparr>http_method = JStr ''POST'', url = JStr ''/Order'',
           data = JObj [(''contact'', JObj [(''id'', JStr ''5''), (''objectName'', JStr ''Contact'')]),
                        (''orderType'', JStr ''AN''),
                        (''status'', JStr ''100''),
                        (''orderDate'', JStr (date_now_iso rt)),
                        (''header'', JStr ''Offer''),
                        (''mapAll'', JBool True)],
           params = JUndefined\<rparr>,
         \<lparr>http_method = JStr ''POST'', url = JStr ''/OrderPos'',
           data = JObj [(''order'', JObj [(''id'', orderId), (''objectName'', JStr ''Order'')]),
                        (''quantity'', JNum 1),
                        (''price'', JNum 10),
                        (''name'', JStr ''Widget''),
                        (''unity'', JObj [(''id'', JStr ''1''), (''objectName'', JStr ''Unity'')]),
                        (''taxRate'', JNum 0),
                        (''mapAll'', JBool True)],
           params = JUndefined\<rparr>])"
proof (intro conjI)
  show "\<exists>P. line_item_request parentId pt (JObj fs) =
          \<lparr>http_method = JStr ''POST'',
           url = JStr (case pt of Invoice \<Rightarrow> ''/InvoicePos'' | Order \<Rightarrow> ''/OrderPos''),
           data = JObj P, params = JUndefined\<rparr>
      \<and> lookup P (case pt of Invoice \<Rightarrow> ''invoice'' | Order \<Rightarrow> ''order'') =
          JObj [(''id'', parentId),
                (''objectName'', JStr (case pt of Invoice \<Rightarrow> ''Invoice'' | Order \<Rightarrow> ''Order''))]
      \<and> lookup P ''quantity'' =
          (if truthy (lookup fs ''quantity'') then lookup fs ''quantity'' else JNum 1)
      \<and> lookup P ''price'' = lookup fs ''price''
      \<and> lookup P ''name'' = lookup fs ''name''
      \<and> lookup P ''unity'' =
          JObj [(''id'', if truthy (lookup fs ''unityId'') then lookup fs ''unityId''
                         else JStr ''1''),
                (''objectName'', JStr ''Unity'')]
      \<and> lookup P ''taxRate'' =
          (if truthy (lookup fs ''taxRate'') then lookup fs ''taxRate'' else JNum 0)
      \<and> lookup P ''mapAll'' = JBool True
      \<and> (if truthy (lookup fs ''text'') then lookup P ''text'' = lookup fs ''text''
          else ''text'' \<notin> fst ` set P)"
    unfolding line_item_request_object
    by (cases pt) (simp_all, simp_all add: lookup_def)
  show "\<exists>n\<le>length ps. snd (createPositions rt be parentId pt (JArr ps) tr) =
          tr @ map (line_item_request parentId pt) (take n ps)"
    by (rule createPositions_prefix)
  show "be [] \<lparr>http_method = JStr ''POST'', url = JStr ''/Order'',
              data = JObj [(''contact'', JObj [(''id'', JStr ''5''), (''objectName'', JStr ''Contact'')]),
                           (''orderType'', JStr ''AN''),
                           (''status'', JStr ''100''),
                           (''orderDate'', JStr (date_now_iso rt)),
                           (''header'', JStr ''Offer''),
                           (''mapAll'', JBool True)],
              params = JUndefined\<rparr> = Reply st body
        \<and> 200 \<le> st \<and> st < 300 \<and> created_id body = Inr orderId \<and> truthy orderId \<longrightarrow>
      snd (handler rt be ''create_offer''
             (Some [(''contactId'', JStr ''5''),
                    (''positions'', JArr [JObj [(''name'', JStr ''Widget''), (''price'', JNum 10)]])])) =
        [\<lparr>http_method = JStr ''POST'', url = JStr ''/Order'',
           data = JObj [(''contact'', JObj [(''id'', JStr ''5''), (''objectName'', JStr ''Contact'')]),
                        (''orderType'', JStr ''AN''),
                        (''status'', JStr ''100''),
                        (''orderDate'', JStr (date_now_iso rt)),
                        (''header'', JStr ''Offer''),
                        (''mapAll'', JBool True)],
           params = JUndefined\<rparr>,
         \<lparr>http_method = JStr ''POST'', url = JStr ''/OrderPos'',
           data = JObj [(''order'', JObj [(''id'', orderId), (''objectName'', JStr ''Order'')]),
                        (''quantity'', JNum 1),
                        (''price'', JNum 10),
                        (''name'', JStr ''Widget''),
                        (''unity'', JObj [(''id'', JStr ''1''), (''objectName'', JStr ''Unity'')]),
                        (''taxRate'', JNum 0),
                        (''mapAll'', JBool True)],
           params = JUndefined\<rparr>]"
  proof (intro impI, elim conjE)
    let ?a = "[(''contactId'', JStr ''5''),
               (''positions'', JArr [JObj [(''name'', JStr ''Widget''), (''price'', JNum 10)]])]"
    have dr: "document_request rt Order ?a =
        \<lparr>http_method = JStr ''POST'', url = JStr ''/Order'',
              data = JObj [(''contact'', JObj [(''id'', JStr ''5''), (''objectName'', JStr ''Contact'')]),
                           (''orderType'', JStr ''AN''),
                           (''status'', JStr ''100''),
                           (''orderDate'', JStr (date_now_iso rt)),
                           (''header'', JStr ''Offer''),
                           (''mapAll'', JBool True)],
              params = JUndefined\<rparr>"
      by (simp add: offer_payload_def Let_def lookup_def js_or_def)
    assume "be [] \<lparr>http_method = JStr ''POST'', url = JStr ''/Order'',
              data = JObj [(''contact'', JObj [(''id'', JStr ''5''), (''objectName'', JStr ''Contact'')]),
                           (''orderType'', JStr ''AN''),
                           (''status'', JStr ''100''),
                           (''orderDate'', JStr (date_now_iso rt)),
                           (''header'', JStr ''Offer''),
                           (''mapAll'', JBool True)],
              params = JUndefined\<rparr> = Reply st body"
      and st: "200 \<le> st" "st < 300" and cid: "created_id body = Inr orderId" "truthy orderId"
    then have doc: "be [] (document_request rt Order ?a) = Reply st body"
      by (simp only: dr)
    have pos: "lookup ?a ''positions'' = JArr [JObj [(''name'', JStr ''Widget''), (''price'', JNum 10)]]"
      by (simp add: lookup_def)
    from offer_example_trace[where be = be, OF doc st cid pos]
    show "snd (handler rt be ''create_offer'' (Some ?a)) =
        [\<lparr>http_method = JStr ''POST'', url = JStr ''/Order'',
           data = JObj [(''contact'', JObj [(''id'', JStr ''5''), (''objectName'', JStr ''Contact'')]),
                        (''orderType'', JStr ''AN''),
                        (''status'', JStr ''100''),
                        (''orderDate'', JStr (date_now_iso rt)),
                        (''header'', JStr ''Offer''),
                        (''mapAll'', JBool True)],
           params = JUndefined\<rparr>,
         \<lparr>http_method = JStr ''POST'', url = JStr ''/OrderPos'',
           data = JObj [(''order'', JObj [(''id'', orderId), (''objectName'', JStr ''Order'')]),
                        (''quantity'', JNum 1),
                        (''price'', JNum 10),
                        (''name'', JStr ''Widget''),
                        (''unity'', JObj [(''id'', JStr ''1''), (''objectName'', JStr ''Unity'')]),
                        (''taxRate'', JNum 0),
                        (''mapAll'', JBool True)],
           params = JUndefined\<rparr>]"
      by (simp only: dr line_item_request_object) (simp add: lookup_def)
  qed
qed

text \<open>
  The position \<^const>\<open>gadget\<close>, which supplies a quantity and a text, under invoice 1; and
  the offer of the example against a backend that creates what is posted.
\<close>

theorem position_payload_shape_witness:
  "line_item_request (JStr ''1'') Invoice gadget =
     \<lparr>http_method = JStr ''POST'', url = JStr ''/InvoicePos'',
        data = JObj [(''invoice'', JObj [(''id'', JStr ''1''), (''objectName'', JStr ''Invoice'')]),
                     (''quantity'', JNum 2),
                     (''price'', JNum 25),
                     (''name'', JStr ''Gadget''),
                     (''unity'', JObj [(''id'', JStr ''1''), (''objectName'', JStr ''Unity'')]),
                     (''taxRate'', JNum 0),
                     (''mapAll'', JBool True),
                     (''text'', JStr ''blue'')],
        params = JUndefined\<rparr>
   \<and> backend_creating []
        \<lparr>http_method = JStr ''POST'', url = JStr ''/Order'',
         data = JObj [(''contact'', JObj [(''id'', JStr ''5''), (''objectName'', JStr ''Contact'')]),
                      (''orderType'', JStr ''AN''),
                      (''status'', JStr ''100''),
                      (''orderDate'', JStr ''2026-01-15T09:30:00.000Z''),
                      (''header'', JStr ''Offer''),
                      (''mapAll'', JBool True)],
         params = JUndefined\<rparr> = Reply 201 (created ''1'' JUndefined)
   \<and> created_id (created ''1'' JUndefined) = Inr (JStr ''1'')
   \<and> snd (handler sample_runtime backend_creating ''create_offer''
             (Some [(''contactId'', JStr ''5''),
                    (''positions'', JArr [JObj [(''name'', JStr ''Widget''), (''price'', JNum 10)]])])) =
        [\<lparr>http_method = JStr ''POST'', url = JStr ''/Order'',
           data = JObj [(''contact'', JObj [(''id'', JStr ''5''), (''objectName'', JStr ''Contact'')]),
                        (''orderType'', JStr ''AN''),
                        (''status'', JStr ''100''),
                        (''orderDate'', JStr ''2026-01-15T09:30:00.000Z''),
                        (''header'', JStr ''Offer''),
                        (''mapAll'', JBool True)],
           params = JUndefined\<rparr>,
         \<lparr>http_method = JStr ''POST'', url = JStr ''/OrderPos'',
           data = JObj [(''order'', JObj [(''id'', JStr ''1''), (''objectName'', JStr ''Order'')]),
                        (''quantity'', JNum 1),
                        (''price'', JNum 10),
                        (''name'', JStr ''Widget''),
                        (''unity'', JObj [(''id'', JStr ''1''), (''objectName'', JStr ''Unity'')]),
                        (''taxRate'', JNum 0),
                        (''mapAll'', JBool True)],
           params = JUndefined\<rparr>]"
proof -
  have now: "date_now_iso sample_runtime = ''2026-01-15T09:30:00.000Z''"
    by (simp add: sample_runtime_def)
  have li: "line_item_request (JStr ''1'') Invoice gadget =
     \<lparr>http_method = JStr ''POST'', url = JStr ''/InvoicePos'',
        data = JObj [(''invoice'', JObj [(''id'', JStr ''1''), (''objectName'', JStr ''Invoice'')]),
                     (''quantity'', JNum 2),
                     (''price'', JNum 25),
                     (''name'', JStr ''Gadget''),
                     (''unity'', JObj [(''id'', JStr ''1''), (''objectName'', JStr ''Unity'')]),
                     (''taxRate'', JNum 0),
                     (''mapAll'', JBool True),
                     (''text'', JStr ''blue'')],
        params = JUndefined\<rparr>"
    unfolding gadget_def line_item_request_object by (simp add: lookup_def)
  have doc: "backend_creating []
        \<lparr>http_method = JStr ''POST'', url = JStr ''/Order'',
         data = JObj [(''contact'', JObj [(''id'', JStr ''5''), (''objectName'', JStr ''Contact'')]),
                      (''orderType'', JStr ''AN''),
                      (''status'', JStr ''100''),
                      (''orderDate'', JStr (date_now_iso sample_runtime)),
                      (''header'', JStr ''Offer''),
                      (''mapAll'', JBool True)],
         params = JUndefined\<rparr> = Reply 201 (created ''1'' JUndefined)"
    by (simp add: backend_creating_def digits_small opt_prop_def lookup_def)
  have cid: "created_id (created ''1'' JUndefined) = Inr (JStr ''1'')"
    by (simp add: created_id_created)
  have hyp: "backend_creating []
        \<lparr>http_method = JStr ''POST'', url = JStr ''/Order'',
         data = JObj [(''contact'', JObj [(''id'', JStr ''5''), (''objectName'', JStr ''Contact'')]),
                      (''orderType'', JStr ''AN''),
                      (''status'', JStr ''100''),
                      (''orderDate'', JStr (date_now_iso sample_runtime)),
                      (''header'', JStr ''Offer''),
                      (''mapAll'', JBool True)],
         params = JUndefined\<rparr> = Reply 201 (created ''1'' JUndefined)
     \<and> (200::nat) \<le> 201 \<and> (201::nat) < 300
     \<and> created_id (created ''1'' JUndefined) = Inr (JStr ''1'') \<and> truthy (JStr ''1'')"
    using doc cid by simp
  from position_payload_shape[where rt = sample_runtime and be = backend_creating
         and st = 201 and body = "created ''1'' JUndefined" and orderId = "JStr ''1''"
         and parentId = "JStr ''1''" and pt = Invoice and fs = "[]" and ps = "[]" and tr = "[]"]
  have "backend_creating []
        \<lparr>http_method = JStr ''POST'', url = JStr ''/Order'',
         data = JObj [(''contact'', JObj [(''id'', JStr ''5''), (''objectName'', JStr ''Contact'')]),
                      (''orderType'', JStr ''AN''),
                      (''status'', JStr ''100''),
                      (''orderDate'', JStr (date_now_iso sample_runtime)),
                      (''header'', JStr ''Offer''),
                      (''mapAll'', JBool True)],
         params = JUndefined\<rparr> = Reply 201 (created ''1'' JUndefined)
     \<and> (200::nat) \<le> 201 \<and> (201::nat) < 300
     \<and> created_id (created ''1'' JUndefined) = Inr (JStr ''1'') \<and> truthy (JStr ''1'') \<longrightarrow>
     snd (handler sample_runtime backend_creating ''create_offer''
             (Some [(''contactId'', JStr ''5''),
                    (''positions'', JArr [JObj [(''name'', JStr ''Widget''), (''price'', JNum 10)]])])) =
        [\<lparr>http_method = JStr ''POST'', url = JStr ''/Order'',
           data = JObj [(''contact'', JObj [(''id'', JStr ''5''), (''objectName'', JStr ''Contact'')]),
                        (''orderType'', JStr ''AN''),
                        (''status'', JStr ''100''),
                        (''orderDate'', JStr (date_now_iso sample_runtime)),
                        (''header'', JStr ''Offer''),
                        (''mapAll'', JBool True)],
           params = JUndefined\<rparr>,
         \<lparr>http_method = JStr ''POST'', url = JStr ''/OrderPos'',
           data = JObj [(''order'', JObj [(''id'', JStr ''1''), (''objectName'', JStr ''Order'')]),
                        (''quantity'', JNum 1),
                        (''price'', JNum 10),
                        (''name'', JStr ''Widget''),
                        (''unity'', JObj [(''id'', JStr ''1''), (''objectName'', JStr ''Unity'')]),
                        (''taxRate'', JNum 0),
                        (''mapAll'', JBool True)],
           params = JUndefined\<rparr>]"
    by (elim conjE)
  from this[rule_format, OF hyp] li doc cid show ?thesis
    by (simp only: now simp_thms)
qed

text \<open>
  C4, as amended. \<^verbatim>\<open>create_invoice\<close> is called, the POST of the document succeeds and
  its body is not \<^verbatim>\<open>null\<close>, so that the lookup of the id does not throw. With no
  \<^verbatim>\<open>positions\<close> argument, with an empty list, or when no id is resolved, the result
  is the body of the document alone and no other request is sent. With a non-empty list
  of positions none of which is \<^verbatim>\<open>null\<close>, an id resolved and every request for a
  position successful, the result is the composite \<^verbatim>\<open>{ invoice, positions }\<close>. The
  composite is never the body alone.
\<close>

theorem create_invoice_result_shape:
  assumes doc: "be [] (document_request rt Invoice a) = Reply st body" "200 \<le> st" "st < 300"
    and cid: "created_id body = Inr invoiceId"
  shows "(lookup a ''positions'' = JUndefined \<longrightarrow>
            handler rt be ''create_invoice'' (Some a) =
              (text_result rt body, [document_request rt Invoice a]))
       \<and> (\<forall>ps. lookup a ''positions'' = JArr ps \<and> (ps = [] \<or> \<not> truthy invoiceId) \<longrightarrow>
            handler rt be ''create_invoice'' (Some a) =
              (text_result rt body, [document_request rt Invoice a]))
       \<and> (\<forall>ps. lookup a ''positions'' = JArr ps \<and> ps \<noteq> [] \<and> truthy invoiceId \<and>
              (\<forall>k<length ps. \<not> nullish (ps ! k) \<and>
                 succeeded (line_item_reply be [document_request rt Invoice a] invoiceId
                              Invoice ps k)) \<longrightarrow>
            handler rt be ''create_invoice'' (Some a) =
              (text_result rt (JObj [(''invoice'', body),
                 (''positions'', JArr (map (\<lambda>k. reply_body
                    (line_item_reply be [document_request rt Invoice a] invoiceId Invoice ps k))
                  [0..<length ps]))]),
               document_request rt Invoice a # map (line_item_request invoiceId Invoice) ps))
       \<and> (\<forall>rs. JObj [(''invoice'', body), (''positions'', JArr rs)] \<noteq> body)"
proof -
  have ok: "succeeded (be [] (document_request rt Invoice a))"
    and body: "reply_body (be [] (document_request rt Invoice a)) = body"
    using doc by simp_all
  from cid body
  have cid': "created_id (reply_body (be [] (document_request rt Invoice a))) = Inr invoiceId"
    by simp
  have bare: "handler rt be ''create_invoice'' (Some a) =
              (text_result rt body, [document_request rt Invoice a])"
    if "\<not> (has_positions rt (lookup a ''positions'') \<and> truthy invoiceId)"
    using handler_document_bare[where be = be, OF ok cid' that] body by simp
  have absent: "lookup a ''positions'' = JUndefined \<longrightarrow>
            handler rt be ''create_invoice'' (Some a) =
              (text_result rt body, [document_request rt Invoice a])"
    using bare by (simp add: has_positions_absent)
  have empty: "\<forall>ps. lookup a ''positions'' = JArr ps \<and> (ps = [] \<or> \<not> truthy invoiceId) \<longrightarrow>
            handler rt be ''create_invoice'' (Some a) =
              (text_result rt body, [document_request rt Invoice a])"
    using bare by (auto simp: has_positions_array)
  have composite: "\<forall>ps. lookup a ''positions'' = JArr ps \<and> ps \<noteq> [] \<and> truthy invoiceId \<and>
              (\<forall>k<length ps. \<not> nullish (ps ! k) \<and>
                 succeeded (line_item_reply be [document_request rt Invoice a] invoiceId
                              Invoice ps k)) \<longrightarrow>
            handler rt be ''create_invoice'' (Some a) =
              (text_result rt (JObj [(''invoice'', body),
                 (''positions'', JArr (map (\<lambda>k. reply_body
                    (line_item_reply be [document_request rt Invoice a] invoiceId Invoice ps k))
                  [0..<length ps]))]),
               document_request rt Invoice a # map (line_item_request invoiceId Invoice) ps)"
  proof (intro allI impI, elim conjE)
    fix ps
    assume p: "lookup a ''positions'' = JArr ps" "ps \<noteq> []" and t: "truthy invoiceId"
      and items: "\<forall>k<length ps. \<not> nullish (ps ! k) \<and>
                 succeeded (line_item_reply be [document_request rt Invoice a] invoiceId
                              Invoice ps k)"
    from handler_document_success[where be = be, OF p ok cid' t items] body
    show "handler rt be ''create_invoice'' (Some a) =
              (text_result rt (JObj [(''invoice'', body),
                 (''positions'', JArr (map (\<lambda>k. reply_body
                    (line_item_reply be [document_request rt Invoice a] invoiceId Invoice ps k))
                  [0..<length ps]))]),
               document_request rt Invoice a # map (line_item_request invoiceId Invoice) ps)"
      by simp
  qed
  from absent empty composite composite_differs show ?thesis by blast
qed

text \<open>An invoice without positions, and an invoice with one position.\<close>

theorem create_invoice_result_shape_witness:
  "backend_creating [] (document_request sample_runtime Invoice no_position_args) =
     Reply 201 (created ''1'' JUndefined)
   \<and> created_id (created ''1'' JUndefined) = Inr (JStr ''1'')
   \<and> lookup no_position_args ''positions'' = JUndefined
   \<and> handler sample_runtime backend_creating ''create_invoice'' (Some no_position_args) =
       (text_result sample_runtime (created ''1'' JUndefined),
        [document_request sample_runtime Invoice no_position_args])
   \<and> backend_creating [] (document_request sample_runtime Invoice one_position_args) =
     Reply 201 (created ''1'' JUndefined)
   \<and> lookup one_position_args ''positions'' = JArr [widget]
   \<and> succeeded (line_item_reply backend_creating
         [document_request sample_runtime Invoice one_position_args] (JStr ''1'') Invoice
         [widget] 0)
   \<and> handler sample_runtime backend_creating ''create_invoice'' (Some one_position_args) =
       (text_result sample_runtime
          (JObj [(''invoice'', created ''1'' JUndefined),
                 (''positions'', JArr [created ''2'' (JStr ''Widget'')])]),
        [document_request sample_runtime Invoice one_position_args,
         line_item_request (JStr ''1'') Invoice widget])"
proof -
  have doc0: "backend_creating [] (document_request sample_runtime Invoice no_position_args) =
     Reply 201 (created ''1'' JUndefined)"
    by (rule document_reply_creating)
  have doc1: "backend_creating [] (document_request sample_runtime Invoice one_position_args) =
     Reply 201 (created ''1'' JUndefined)"
    by (rule document_reply_creating)
  have st: "(200::nat) \<le> 201" "(201::nat) < 300" by simp_all
  have cid: "created_id (created ''1'' JUndefined) = Inr (JStr ''1'')"
    by (simp add: created_id_created)
  have p0: "lookup no_position_args ''positions'' = JUndefined"
    by (simp add: no_position_args_def lookup_def)
  have p1: "lookup one_position_args ''positions'' = JArr [widget]"
    by (simp add: one_position_args_def lookup_def)
  have r0: "line_item_reply backend_creating
         [document_request sample_runtime Invoice one_position_args] (JStr ''1'') Invoice
         [widget] 0 = Reply 201 (created ''2'' (JStr ''Widget''))"
    by (simp add: line_item_reply_def backend_creating_def digits_small widget_def
          name_of_line_item lookup_def)
  have items: "\<forall>k<length [widget]. \<not> nullish ([widget] ! k) \<and>
        succeeded (line_item_reply backend_creating
          [document_request sample_runtime Invoice one_position_args] (JStr ''1'') Invoice
          [widget] k)"
    using r0 by (simp add: widget_def)
  have first: "handler sample_runtime backend_creating ''create_invoice'' (Some no_position_args) =
       (text_result sample_runtime (created ''1'' JUndefined),
        [document_request sample_runtime Invoice no_position_args])"
    using create_invoice_result_shape[where be = backend_creating, OF doc0 st cid] p0 by blast
  have "handler sample_runtime backend_creating ''create_invoice'' (Some one_position_args) =
       (text_result sample_runtime (JObj [(''invoice'', created ''1'' JUndefined),
          (''positions'', JArr (map (\<lambda>k. reply_body (line_item_reply backend_creating
              [document_request sample_runtime Invoice one_position_args] (JStr ''1'') Invoice
              [widget] k)) [0..<length [widget]]))]),
        document_request sample_runtime Invoice one_position_args #
        map (line_item_request (JStr ''1'') Invoice) [widget])"
    using create_invoice_result_shape[where be = backend_creating, OF doc1 st cid] p1 items by simp
  then have second:
    "handler sample_runtime backend_creating ''create_invoice'' (Some one_position_args) =
       (text_result sample_runtime
          (JObj [(''invoice'', created ''1'' JUndefined),
                 (''positions'', JArr [created ''2'' (JStr ''Widget'')])]),
        [document_request sample_runtime Invoice one_position_args,
         line_item_request (JStr ''1'') Invoice widget])"
    using r0 by simp
  from doc0 doc1 cid p0 p1 r0 first second show ?thesis by simp
qed

text \<open>
  The composite is not returned whenever the list is non-empty and the id resolved: with
  one position and a backend that refuses its second request, the result is neither
  the composite nor the body of the document, but an error.
\<close>

theorem create_invoice_composite_refused:
  "lookup one_position_args ''positions'' = JArr [widget]
   \<and> backend_failing_from 1 [] (document_request sample_runtime Invoice one_position_args) =
       Reply 201 (created ''1'' JUndefined)
   \<and> created_id (created ''1'' JUndefined) = Inr (JStr ''1'')
   \<and> fst (handler sample_runtime (backend_failing_from 1) ''create_invoice''
            (Some one_position_args)) =
       \<lparr>content_text = JStr ''Error: SevDesk API Error: 500 - {}'', isError = True\<rparr>"
proof -
  have pos: "lookup one_position_args ''positions'' = JArr [widget]"
    by (simp_all add: one_position_args_def lookup_def)
  have doc: "backend_failing_from 1 [] (document_request sample_runtime Invoice one_position_args) =
       Reply 201 (created ''1'' JUndefined)"
    by (rule document_reply_failing_from) simp
  have ok: "succeeded (backend_failing_from 1 []
              (document_request sample_runtime Invoice one_position_args))"
    and body: "reply_body (backend_failing_from 1 []
              (document_request sample_runtime Invoice one_position_args)) = created ''1'' JUndefined"
    unfolding doc by simp_all
  have cid: "created_id (created ''1'' JUndefined) = Inr (JStr ''1'')" "truthy (JStr ''1'')"
    by (simp_all add: created_id_created)
  have r0: "line_item_reply (backend_failing_from 1)
         [document_request sample_runtime Invoice one_position_args] (JStr ''1'') Invoice
         [widget] 0 = Reply 500 (JObj [])"
    by (simp add: line_item_reply_def backend_failing_from_def)
  have run: "handler sample_runtime (backend_failing_from 1) (document_tool Invoice)
               (Some one_position_args) =
       (error_result sample_runtime (thrown_for sample_runtime (Reply 500 (JObj []))),
        document_request sample_runtime Invoice one_position_args #
        map (line_item_request (JStr ''1'') Invoice) (take (Suc 0) [widget]))"
    using handler_document_failure[where a = one_position_args and ps = "[widget]"
        and k = 0 and be = "backend_failing_from 1" and rt = sample_runtime and pt = Invoice
        and parentId = "JStr ''1''"] pos ok body cid r0
    by (simp add: widget_def)
  show ?thesis
    using run pos doc cid(1) by (simp add: error_500)
qed

text \<open>
  C5. Whatever the tool and its arguments: if one of the requests of an invocation is
  answered with a status of 400 or more, the result is flagged as an error and its
  text is \<^verbatim>\<open>Error: SevDesk API Error: \<close> followed by the status, \<^verbatim>\<open> - \<close> and the
  body as \<^verbatim>\<open>JSON.stringify\<close> serialises it.
\<close>

theorem http_error_status_surfaced:
  assumes run: "handler rt be name args = (res, tr)"
    and i: "i < length tr"
    and reply: "be (take i tr) (tr ! i) = Reply st body"
    and st: "400 \<le> st"
  shows "isError res \<and>
         content_text res =
           JStr (''Error: SevDesk API Error: '' @ number_to_string rt (of_nat st) @ '' - ''
                 @ js_to_string rt (JSON_stringify rt body))"
proof -
  have "\<not> succeeded (be (take i tr) (tr ! i))" using reply st by simp
  from refused_reported[OF run i this] reply
  show ?thesis by (simp add: error_result_def api_error_message_def)
qed

text \<open>\<^verbatim>\<open>list_contacts\<close> against a backend that answers 404 with the body \<^verbatim>\<open>[7,null]\<close>.\<close>

theorem http_error_status_surfaced_witness:
  "handler sample_runtime (backend_refusing 404 (JArr [JNum 7, JNull])) ''list_contacts'' (Some []) =
     (\<lparr>content_text = JStr ''Error: SevDesk API Error: 404 - [7,null]'', isError = True\<rparr>,
      [\<lparr>http_method = JStr ''GET'', url = JStr ''/Contact'', data = JUndefined,
         params = JObj [(''limit'', JNum 50), (''offset'', JNum 0), (''countAll'', JBool True)]\<rparr>])
   \<and> backend_refusing 404 (JArr [JNum 7, JNull]) []
       \<lparr>http_method = JStr ''GET'', url = JStr ''/Contact'', data = JUndefined,
         params = JObj [(''limit'', JNum 50), (''offset'', JNum 0), (''countAll'', JBool True)]\<rparr>
       = Reply 404 (JArr [JNum 7, JNull])
   \<and> (400::nat) \<le> 404"
proof -
  obtain res tr where run:
    "handler sample_runtime (backend_refusing 404 (JArr [JNum 7, JNull])) ''list_contacts'' (Some [])
       = (res, tr)"
    by (cases "handler sample_runtime (backend_refusing 404 (JArr [JNum 7, JNull]))
                 ''list_contacts'' (Some [])")
  have tr: "tr = [\<lparr>http_method = JStr ''GET'', url = JStr ''/Contact'', data = JUndefined,
         params = JObj [(''limit'', JNum 50), (''offset'', JNum 0), (''countAll'', JBool True)]\<rparr>]"
    using run
    by (auto simp: handler_def dispatch_def list_contacts_def request_eq Let_def lookup_def
          default_to_def split: sum.splits prod.splits if_splits)
  have i: "0 < length tr" by (simp add: tr)
  have reply: "backend_refusing 404 (JArr [JNum 7, JNull]) (take 0 tr) (tr ! 0) =
      Reply 404 (JArr [JNum 7, JNull])"
    by (simp add: backend_refusing_def)
  have st: "(400::nat) \<le> 404" by simp
  have msg: "''Error: SevDesk API Error: '' @ number_to_string sample_runtime (of_nat 404) @ '' - ''
        @ js_to_string sample_runtime (JSON_stringify sample_runtime (JArr [JNum 7, JNull]))
      = ''Error: SevDesk API Error: 404 - [7,null]''"
    by (simp add: sample_runtime_def JSON_stringify_def decimal_def digits.simps)
  from http_error_status_surfaced[OF run i reply st] msg
  have "res = \<lparr>content_text = JStr ''Error: SevDesk API Error: 404 - [7,null]'', isError = True\<rparr>"
    by (cases res) simp
  with run tr show ?thesis
    by (simp add: backend_refusing_def)
qed

text \<open>
  C6. An invocation that names no declared tool reaches the \<^verbatim>\<open>default\<close> case, which
  throws an \<^verbatim>\<open>McpError\<close> with the code \<^verbatim>\<open>MethodNotFound\<close>; the handler's own \<^verbatim>\<open>catch\<close>
  reports it to the caller as a result flagged as an error, whose text is the message
  of that \<^verbatim>\<open>McpError\<close>. No request is sent.
\<close>

theorem unknown_tool_method_not_found:
  assumes "name \<notin> set tool_names"
  shows "dispatch rt be name args [] =
           (Inl (McpError MethodNotFound (''Unknown tool: '' @ name)), [])
         \<and> handler rt be name args =
           (\<lparr>content_text =
                JStr (''Error: '' @ mcp_error_message rt MethodNotFound (''Unknown tool: '' @ name)),
              isError = True\<rparr>, [])"
  using assms
  by (simp add: tool_names_def handler_def dispatch_def error_result_def)

text \<open>A tool that is not declared, \<^verbatim>\<open>delete_contact\<close>.\<close>

theorem unknown_tool_method_not_found_witness:
  "''delete_contact'' \<notin> set tool_names
   \<and> handler sample_runtime backend_creating ''delete_contact'' (Some [(''contactId'', JStr ''5'')]) =
       (\<lparr>content_text = JStr ''Error: MCP error -32601: Unknown tool: delete_contact'',
          isError = True\<rparr>, [])"
proof -
  have h: "''delete_contact'' \<notin> set tool_names"
    by (simp add: tool_names_def)
  show ?thesis
    using h unknown_tool_method_not_found[OF h, of sample_runtime backend_creating
              "Some [(''contactId'', JStr ''5'')]"]
    by (simp add: sample_runtime_def)
qed

text \<open>
  C7. \<^verbatim>\<open>create_contact({name: "Acme Corp", categoryId: 3})\<close> sends exactly one request,
  a POST to \<^verbatim>\<open>/Contact\<close> whose body is exactly
  \<^verbatim>\<open>{objectName: "Contact", status: "1000", category: {id: 3, objectName: "Category"}, name: "Acme Corp"}\<close>:
  \<^verbatim>\<open>surename\<close>, \<^verbatim>\<open>familyname\<close> and \<^verbatim>\<open>customerNumber\<close>, which are absent, are left
  out of the body, not sent as \<^verbatim>\<open>null\<close>. This holds whatever the backend answers.
\<close>

theorem create_contact_example:
  "snd (handler rt be ''create_contact''
          (Some [(''name'', JStr ''Acme Corp''), (''categoryId'', JNum 3)])) =
     [\<lparr>http_method = JStr ''POST'', url = JStr ''/Contact'',
        data = JObj [(''objectName'', JStr ''Contact''),
                     (''status'', JStr ''1000''),
                     (''category'', JObj [(''id'', JNum 3), (''objectName'', JStr ''Category'')]),
                     (''name'', JStr ''Acme Corp'')],
        params = JUndefined\<rparr>]"
  by (simp add: handler_def dispatch_def create_contact_def request_eq Let_def lookup_def js_or_def
        split: sum.split prod.split)

text \<open>
  C8. \<^verbatim>\<open>update_contact\<close>, \<^verbatim>\<open>update_invoice\<close> and \<^verbatim>\<open>update_offer\<close>, called with an
  arguments object, each send exactly one request: a PUT to \<^verbatim>\<open>/Contact/{id}\<close>,
  \<^verbatim>\<open>/Invoice/{id}\<close> or \<^verbatim>\<open>/Order/{id}\<close>, the id being the argument \<^verbatim>\<open>contactId\<close>,
  \<^verbatim>\<open>invoiceId\<close> or \<^verbatim>\<open>orderId\<close> as a template literal prints it. The body holds
  exactly the other arguments, names and values as supplied and in the order supplied.
\<close>

theorem update_passes_fields_through:
  "snd (handler rt be ''update_contact'' (Some a)) =
     [\<lparr>http_method = JStr ''PUT'',
        url = JStr (''/Contact/'' @ js_to_string rt (lookup a ''contactId'')),
        data = JObj (filter (\<lambda>kv. fst kv \<noteq> ''contactId'') a),
        params = JUndefined\<rparr>]
   \<and> snd (handler rt be ''update_invoice'' (Some a)) =
     [\<lparr>http_method = JStr ''PUT'',
        url = JStr (''/Invoice/'' @ js_to_string rt (lookup a ''invoiceId'')),
        data = JObj (filter (\<lambda>kv. fst kv \<noteq> ''invoiceId'') a),
        params = JUndefined\<rparr>]
   \<and> snd (handler rt be ''update_offer'' (Some a)) =
     [\<lparr>http_method = JStr ''PUT'',
        url = JStr (''/Order/'' @ js_to_string rt (lookup a ''orderId'')),
        data = JObj (filter (\<lambda>kv. fst kv \<noteq> ''orderId'') a),
        params = JUndefined\<rparr>]"
  by (simp add: handler_def dispatch_def update_contact_def update_invoice_def update_offer_def
        request_eq Let_def rest_without_def split: sum.split prod.split)

text \<open>Renaming contact 12, with a field the schema of the tool does not list.\<close>

theorem update_passes_fields_through_witness:
  "snd (handler sample_runtime backend_creating ''update_contact''
          (Some [(''name'', JStr ''Acme''), (''contactId'', JStr ''12''), (''zip'', JNum 8000)])) =
     [\<lparr>http_method = JStr ''PUT'', url = JStr ''/Contact/12'',
        data = JObj [(''name'', JStr ''Acme''), (''zip'', JNum 8000)],
        params = JUndefined\<rparr>]"
  using update_passes_fields_through[of sample_runtime backend_creating
          "[(''name'', JStr ''Acme''), (''contactId'', JStr ''12''), (''zip'', JNum 8000)]"]
  by (simp add: lookup_def)

text \<open>
  C9, as amended. \<^verbatim>\<open>list_contacts\<close> and \<^verbatim>\<open>list_invoices\<close>, called with an arguments
  object, each send exactly one request, a GET whose query parameters have
  \<^verbatim>\<open>countAll\<close> set, \<^verbatim>\<open>limit\<close> as supplied or 50 and \<^verbatim>\<open>offset\<close> as supplied or 0. For
  \<^verbatim>\<open>list_invoices\<close>, a \<^verbatim>\<open>status\<close> that is truthy is passed as \<^verbatim>\<open>status\<close> and a
  \<^verbatim>\<open>contactId\<close> that is truthy is passed as \<^verbatim>\<open>contact[id]\<close>; one that is not truthy
  (absent, or an empty string, or 0) is left out.
\<close>

theorem list_query_parameters:
  "(\<exists>ps. snd (handler rt be ''list_contacts'' (Some a)) =
            [\<lparr>http_method = JStr ''GET'', url = JStr ''/Contact'', data = JUndefined,
               params = JObj ps\<rparr>]
        \<and> lookup ps ''countAll'' = JBool True
        \<and> lookup ps ''limit'' =
            (if lookup a ''limit'' = JUndefined then JNum 50 else lookup a ''limit'')
        \<and> lookup ps ''offset'' =
            (if lookup a ''offset'' = JUndefined then JNum 0 else lookup a ''offset''))
   \<and> (\<exists>ps. snd (handler rt be ''list_invoices'' (Some a)) =
            [\<lparr>http_method = JStr ''GET'', url = JStr ''/Invoice'', data = JUndefined,
               params = JObj ps\<rparr>]
        \<and> lookup ps ''countAll'' = JBool True
        \<and> lookup ps ''limit'' =
            (if lookup a ''limit'' = JUndefined then JNum 50 else lookup a ''limit'')
        \<and> lookup ps ''offset'' =
            (if lookup a ''offset'' = JUndefined then JNum 0 else lookup a ''offset'')
        \<and> (if truthy (lookup a ''status'') then lookup ps ''status'' = lookup a ''status''
            else ''status'' \<notin> fst ` set ps)
        \<and> (if truthy (lookup a ''contactId'')
            then lookup ps ''contact[id]'' = lookup a ''contactId''
            else ''contact[id]'' \<notin> fst ` set ps))"
proof (intro conjI)
  show "\<exists>ps. snd (handler rt be ''list_contacts'' (Some a)) =
            [\<lparr>http_method = JStr ''GET'', url = JStr ''/Contact'', data = JUndefined,
               params = JObj ps\<rparr>]
        \<and> lookup ps ''countAll'' = JBool True
        \<and> lookup ps ''limit'' =
            (if lookup a ''limit'' = JUndefined then JNum 50 else lookup a ''limit'')
        \<and> lookup ps ''offset'' =
            (if lookup a ''offset'' = JUndefined then JNum 0 else lookup a ''offset'')"
    unfolding list_contacts_request
    by (simp add: default_to_def) (simp add: lookup_def)
  show "\<exists>ps. snd (handler rt be ''list_invoices'' (Some a)) =
            [\<lparr>http_method = JStr ''GET'', url = JStr ''/Invoice'', data = JUndefined,
               params = JObj ps\<rparr>]
        \<and> lookup ps ''countAll'' = JBool True
        \<and> lookup ps ''limit'' =
            (if lookup a ''limit'' = JUndefined then JNum 50 else lookup a ''limit'')
        \<and> lookup ps ''offset'' =
            (if lookup a ''offset'' = JUndefined then JNum 0 else lookup a ''offset'')
        \<and> (if truthy (lookup a ''status'') then lookup ps ''status'' = lookup a ''status''
            else ''status'' \<notin> fst ` set ps)
        \<and> (if truthy (lookup a ''contactId'')
            then lookup ps ''contact[id]'' = lookup a ''contactId''
            else ''contact[id]'' \<notin> fst ` set ps)"
    unfolding list_invoices_request
    by (simp add: default_to_def) (simp add: lookup_def)
qed

text \<open>Invoices of contact 7 with status 200, ten at a time; and all contacts.\<close>

theorem list_query_parameters_witness:
  "snd (handler sample_runtime backend_creating ''list_invoices''
          (Some [(''limit'', JNum 10), (''status'', JStr ''200''), (''contactId'', JNum 7)])) =
     [\<lparr>http_method = JStr ''GET'', url = JStr ''/Invoice'', data = JUndefined,
        params = JObj [(''limit'', JNum 10), (''offset'', JNum 0), (''countAll'', JBool True),
                       (''status'', JStr ''200''), (''contact[id]'', JNum 7)]\<rparr>]
   \<and> snd (handler sample_runtime backend_creating ''list_contacts'' (Some [])) =
     [\<lparr>http_method = JStr ''GET'', url = JStr ''/Contact'', data = JUndefined,
        params = JObj [(''limit'', JNum 50), (''offset'', JNum 0), (''countAll'', JBool True)]\<rparr>]"
proof -
  have inv: "snd (handler sample_runtime backend_creating ''list_invoices''
          (Some [(''limit'', JNum 10), (''status'', JStr ''200''), (''contactId'', JNum 7)])) =
     [\<lparr>http_method = JStr ''GET'', url = JStr ''/Invoice'', data = JUndefined,
        params = JObj [(''limit'', JNum 10), (''offset'', JNum 0), (''countAll'', JBool True),
                       (''status'', JStr ''200''), (''contact[id]'', JNum 7)]\<rparr>]"
    unfolding list_invoices_request by (simp add: lookup_def default_to_def)
  have con: "snd (handler sample_runtime backend_creating ''list_contacts'' (Some [])) =
     [\<lparr>http_method = JStr ''GET'', url = JStr ''/Contact'', data = JUndefined,
        params = JObj [(''limit'', JNum 50), (''offset'', JNum 0), (''countAll'', JBool True)]\<rparr>]"
    unfolding list_contacts_request by (simp add: lookup_def default_to_def)
  show ?thesis
    using list_query_parameters[of sample_runtime backend_creating "[]"] inv con
    by simp
qed

text \<open>
  A filter is not passed whenever it is supplied: the contact id 0 and the empty status
  are supplied and left out.
\<close>

theorem list_invoices_zero_contact_dropped:
  "snd (handler sample_runtime backend_creating ''list_invoices''
          (Some [(''status'', JStr ''''), (''contactId'', JNum 0)])) =
     [\<lparr>http_method = JStr ''GET'', url = JStr ''/Invoice'', data = JUndefined,
        params = JObj [(''limit'', JNum 50), (''offset'', JNum 0), (''countAll'', JBool True)]\<rparr>]"
  unfolding list_invoices_request by (simp add: lookup_def default_to_def)

text \<open>
  C10. When the HTTP client fails without a response (a connection failure, not a
  status outside 2xx), \<^const>\<open>request\<close> throws an \<^verbatim>\<open>Error\<close> whose message is exactly
  \<^verbatim>\<open>SevDesk API Error: undefined - undefined\<close>: the prefix is there, and the text
  \<^verbatim>\<open>undefined\<close> stands where the status and the body would be.
\<close>

theorem request_without_response:
  assumes "be tr \<lparr>http_method = m, url = u, data = d, params = p\<rparr> = NoReply"
  shows "request rt be m u d p tr =
           (Inl (Error ''SevDesk API Error: undefined - undefined''),
            tr @ [\<lparr>http_method = m, url = u, data = d, params = p\<rparr>])"
  using assms
  by (simp add: request_def Let_def api_error_message_def JSON_stringify_def)

text \<open>A GET against a backend that cannot be reached.\<close>

theorem request_without_response_witness:
  "backend_unreachable []
     \<lparr>http_method = JStr ''GET'', url = JStr ''/Contact'', data = JUndefined, params = JNull\<rparr>
     = NoReply
   \<and> request sample_runtime backend_unreachable (JStr ''GET'') (JStr ''/Contact'') JUndefined
       JNull [] =
       (Inl (Error ''SevDesk API Error: undefined - undefined''),
        [\<lparr>http_method = JStr ''GET'', url = JStr ''/Contact'', data = JUndefined, params = JNull\<rparr>])"
proof -
  have h: "backend_unreachable []
     \<lparr>http_method = JStr ''GET'', url = JStr ''/Contact'', data = JUndefined, params = JNull\<rparr>
     = NoReply"
    by (simp add: backend_unreachable_def)
  show ?thesis
    using h request_without_response[where be = backend_unreachable and tr = "[]"
              and rt = sample_runtime, OF h]
    by simp
qed

end
